theory Spec2Isabelle
  imports Complex_Main "HOL-Library.AList" "HOL-Library.Sublist"
begin

section \<open>Numbers and errors\<close>

text \<open>
  The repository computes with numpy arrays of IEEE doubles. A double is modelled as a real
  number or the not-a-number value: arithmetic is exact on numbers, \<open>NaN\<close> propagates through
  every operation and makes every comparison false. Rounding and overflow to infinity are
  not modelled.
\<close>

datatype flt = Num real | NaN

datatype py_error = ValueError | TypeError | LinAlgError | IndexError

fun fadd :: "flt \<Rightarrow> flt \<Rightarrow> flt" where
  "fadd (Num a) (Num b) = Num (a + b)"
| "fadd _ _ = NaN"

fun fsub :: "flt \<Rightarrow> flt \<Rightarrow> flt" where
  "fsub (Num a) (Num b) = Num (a - b)"
| "fsub _ _ = NaN"

fun fmul :: "flt \<Rightarrow> flt \<Rightarrow> flt" where
  "fmul (Num a) (Num b) = Num (a * b)"
| "fmul _ _ = NaN"

fun fless :: "flt \<Rightarrow> flt \<Rightarrow> bool" where
  "fless (Num a) (Num b) = (a < b)"
| "fless _ _ = False"

fun isnan :: "flt \<Rightarrow> bool" where
  "isnan NaN = True"
| "isnan (Num _) = False"

text \<open>\<open>np.absolute\<close>, \<open>np.maximum\<close> (which returns NaN when either argument is NaN) and
  \<open>np.sqrt\<close> (NaN on a negative argument).\<close>

fun fabs :: "flt \<Rightarrow> flt" where
  "fabs (Num a) = Num \<bar>a\<bar>"
| "fabs NaN = NaN"

fun fmaximum :: "flt \<Rightarrow> flt \<Rightarrow> flt" where
  "fmaximum (Num a) (Num b) = Num (max a b)"
| "fmaximum _ _ = NaN"

fun fsqrt :: "flt \<Rightarrow> flt" where
  "fsqrt (Num a) = (if a < 0 then NaN else Num (sqrt a))"
| "fsqrt NaN = NaN"

definition fsum :: "flt list \<Rightarrow> flt" where
  "fsum xs = foldl fadd (Num 0) xs"

section \<open>moving\_prediction.py: radius queries\<close>

type_synonym vec3 = "real \<times> real \<times> real"

fun vsub :: "vec3 \<Rightarrow> vec3 \<Rightarrow> vec3" where
  "vsub (x, y, z) (cx, cy, cz) = (x - cx, y - cy, z - cz)"

fun vabs :: "vec3 \<Rightarrow> vec3" where
  "vabs (x, y, z) = (\<bar>x\<bar>, \<bar>y\<bar>, \<bar>z\<bar>)"

text \<open>\<open>np.linalg.norm(radii, axis=1)\<close> on one row.\<close>

fun norm3 :: "vec3 \<Rightarrow> real" where
  "norm3 (x, y, z) = sqrt (x * x + y * y + z * z)"

text \<open>
  \<^verbatim>\<open>radii = np.abs(points - center)
  distances = np.linalg.norm(radii, axis=1)
  return np.asarray(np.where(distances < radius))[0], radii[distances < radius]\<close>
\<close>

definition find_points_in_radius :: "vec3 list \<Rightarrow> vec3 \<Rightarrow> real \<Rightarrow> nat list \<times> vec3 list" where
  "find_points_in_radius points center radius =
     (let radii = map (\<lambda>p. vabs (vsub p center)) points;
          distances = map norm3 radii
      in (filter (\<lambda>i. distances ! i < radius) [0..<length distances],
          map snd (filter (\<lambda>(d, r). d < radius) (zip distances radii))))"

text \<open>\<open>np.cross(angular_velocity, radii)\<close> on one row, as
  \<open>PointsVelocities.calculate_angular_to_linear_velocity\<close> applies it to the radius vectors
  that \<open>get_particles_velocities\<close> hands over from \<open>find_points_in_radius\<close>.\<close>

fun cross3 :: "vec3 \<Rightarrow> vec3 \<Rightarrow> vec3" where
  "cross3 (a1, a2, a3) (b1, b2, b3) = (a2 * b3 - a3 * b2, a3 * b1 - a1 * b3, a1 * b2 - a2 * b1)"

text \<open>The Euclidean distance of the claims, stated without the absolute values of the code.\<close>

definition euclidean_distance :: "vec3 \<Rightarrow> vec3 \<Rightarrow> real" where
  "euclidean_distance p c = norm3 (vsub p c)"

section \<open>moving\_prediction.py: trajectory fitting\<close>

text \<open>
  \<open>np.polyval(p, x)\<close> is Horner's scheme, highest power first:
  \<^verbatim>\<open>y = zeros_like(x); for pv in p: y = y * x + pv\<close>.
\<close>

definition polyval :: "flt list \<Rightarrow> flt \<Rightarrow> flt" where
  "polyval p x = foldl (\<lambda>y pv. fadd (fmul y x) pv) (Num 0) p"

text \<open>\<open>generate_poly_trajectory(x, trajectory_param)\<close>, called with an explicit \<open>x\<close>.\<close>

definition generate_poly_trajectory :: "flt list \<Rightarrow> flt list \<Rightarrow> flt list" where
  "generate_poly_trajectory x trajectory_param = map (polyval trajectory_param) x"

text \<open>\<open>generate_func_trajectory(trajectory_fun, trajectory_param, x)\<close> applies the library
  function to the times and the parameters.\<close>

definition generate_func_trajectory ::
  "(flt list \<Rightarrow> flt list \<Rightarrow> flt list) \<Rightarrow> flt list \<Rightarrow> flt list \<Rightarrow> flt list" where
  "generate_func_trajectory trajectory_fun trajectory_param x = trajectory_fun x trajectory_param"

text \<open>\<open>np.sum((a0 - a1) ** 2)\<close>\<close>

definition sum_of_the_squares_of_the_residuals :: "flt list \<Rightarrow> flt list \<Rightarrow> flt" where
  "sum_of_the_squares_of_the_residuals a0 a1 =
     fsum (map (\<lambda>(a, b). fmul (fsub a b) (fsub a b)) (zip a0 a1))"

text \<open>The value stored under one key of the \<open>found_functions\<close> dictionary.\<close>

record candidate =
  function' :: "flt list \<Rightarrow> flt list \<Rightarrow> flt list"
  function_params :: "flt list"
  error :: flt
  standard_deviation :: "flt list"
  covariance_matrix :: "flt list list"

text \<open>A Python dictionary keeps insertion order and overwrites in place: an association
  list under \<open>AList.update\<close>.\<close>

type_synonym found_functions = "(string \<times> candidate) list"

text \<open>
  \<open>np.polyfit(t, points, n, cov=True)\<close> is the numerical library's least-squares solver: a
  parameter of the model. It returns the coefficients (highest power first) and their
  covariance matrix, or raises.
\<close>

type_synonym polyfit = "flt list \<Rightarrow> flt list \<Rightarrow> nat \<Rightarrow> py_error + (flt list \<times> flt list list)"

definition diag :: "flt list list \<Rightarrow> flt list" where
  "diag m = map (\<lambda>i. m ! i ! i) [0..<length m]"

definition trajectory_poly_fitting ::
  "polyfit \<Rightarrow> flt list \<Rightarrow> flt list \<Rightarrow> nat \<Rightarrow> py_error + (flt list \<times> flt list \<times> flt list list)" where
  "trajectory_poly_fitting polyfit trajectory_time trajectory_points poly_number =
     (case polyfit trajectory_time trajectory_points poly_number of
        Inl e \<Rightarrow> Inl e
      | Inr (popt, pcov) \<Rightarrow> Inr (popt, map fsqrt (diag pcov), pcov))"

text \<open>Python's \<open>str(i)\<close> on a non-negative integer.\<close>

fun str_nat :: "nat \<Rightarrow> string" where
  "str_nat n = (if n < 10 then [char_of (48 + n)]
                else str_nat (n div 10) @ [char_of (48 + n mod 10)])"

declare str_nat.simps [simp del]

text \<open>
  The body of \<open>for i in range(max_poly)\<close> in \<open>find_functions\<close>; an exception of the fit
  leaves the function, since the source has no handler around it.
\<close>

fun find_functions_loop ::
  "polyfit \<Rightarrow> flt list \<Rightarrow> flt list \<Rightarrow> flt \<Rightarrow> nat list \<Rightarrow> found_functions
     \<Rightarrow> py_error + found_functions" where
  "find_functions_loop polyfit t points threshold_accuracy [] found = Inr found"
| "find_functions_loop polyfit t points threshold_accuracy (i # rest) found =
     (case trajectory_poly_fitting polyfit t points i of
        Inl e \<Rightarrow> Inl e
      | Inr (poly_params, poly_sd, poly_cov) \<Rightarrow>
          (let y' = generate_poly_trajectory t poly_params in
           if 0 < length (filter isnan y')
           then find_functions_loop polyfit t points threshold_accuracy rest found
           else
             (let mean_error = sum_of_the_squares_of_the_residuals points y' in
              find_functions_loop polyfit t points threshold_accuracy rest
                (if fless mean_error threshold_accuracy
                 then AList.update (''polyfit_model'' @ str_nat i)
                        \<lparr>function' = generate_poly_trajectory, function_params = poly_params,
                         error = mean_error, standard_deviation = poly_sd,
                         covariance_matrix = poly_cov\<rparr> found
                 else found))))"

text \<open>
  \<^verbatim>\<open>max_poly = points.shape[0] - 1 if points.shape[0] - 1 <= 15 else 15
  for i in range(max_poly): ...
  if not found_functions: print('function wasn\'t found')
  return found_functions\<close>
  The result carries the dictionary and the lines printed.
\<close>

definition max_poly :: "flt list \<Rightarrow> int" where
  "max_poly points = (if int (length points) - 1 \<le> 15 then int (length points) - 1 else 15)"

definition find_functions ::
  "polyfit \<Rightarrow> flt list \<Rightarrow> flt list \<Rightarrow> flt \<Rightarrow> py_error + (found_functions \<times> string list)" where
  "find_functions polyfit t points threshold_accuracy =
     (case find_functions_loop polyfit t points threshold_accuracy
             [0..<nat (max_poly points)] [] of
        Inl e \<Rightarrow> Inl e
      | Inr found \<Rightarrow> Inr (found, if found = [] then [''function wasn't found''] else []))"

section \<open>moving\_prediction.py: evaluating candidates\<close>

text \<open>
  \<open>f_p = found_functions[func]['function_params']\<close> is a reference to the stored array, and
  \<open>f_p += sd\<close>, \<open>f_p -= sd\<close> update that array in place: the dictionary entry changes. numpy
  raises when the operand cannot be broadcast to the shape of \<open>f_p\<close>.
\<close>

definition inplace :: "(flt \<Rightarrow> flt \<Rightarrow> flt) \<Rightarrow> flt list \<Rightarrow> flt list \<Rightarrow> py_error + flt list" where
  "inplace opr f_p sd =
     (if length sd = length f_p then Inr (map (\<lambda>(a, b). opr a b) (zip f_p sd))
      else if length sd = 1 then Inr (map (\<lambda>a. opr a (hd sd)) f_p)
      else Inl ValueError)"

text \<open>The body of the loop of \<open>get_future_points\<close> for one key: the row of \<open>y\<close> and the
  entry as it is left in the dictionary.\<close>

definition future_points_of ::
  "string \<Rightarrow> candidate \<Rightarrow> flt list \<Rightarrow> string \<Rightarrow> py_error + (flt list \<times> candidate)" where
  "future_points_of func c tt deviation =
     (case (if deviation = ''up'' then inplace fadd (function_params c) (standard_deviation c)
            else if deviation = ''down''
            then inplace fsub (function_params c) (standard_deviation c)
            else Inr (function_params c)) of
        Inl e \<Rightarrow> Inl e
      | Inr f_p \<Rightarrow>
          Inr (if sublist ''polyfit_model'' func then function' c tt f_p
               else generate_func_trajectory (function' c) f_p tt,
               c\<lparr>function_params := f_p\<rparr>))"

text \<open>\<open>get_future_points\<close>: the keys are visited in order; the result is the array \<open>y\<close>, one
  row per key, and the dictionary after the call.\<close>

fun get_future_points_loop ::
  "found_functions \<Rightarrow> flt list \<Rightarrow> string \<Rightarrow> py_error + (flt list list \<times> found_functions)" where
  "get_future_points_loop [] tt deviation = Inr ([], [])"
| "get_future_points_loop ((func, c) # rest) tt deviation =
     (case future_points_of func c tt deviation of
        Inl e \<Rightarrow> Inl e
      | Inr (row, c') \<Rightarrow>
          (case get_future_points_loop rest tt deviation of
             Inl e \<Rightarrow> Inl e
           | Inr (y, rest') \<Rightarrow> Inr (row # y, (func, c') # rest')))"

definition get_future_points ::
  "found_functions \<Rightarrow> flt list \<Rightarrow> string \<Rightarrow> py_error + (flt list list \<times> found_functions)" where
  "get_future_points found tt deviation = get_future_points_loop found tt deviation"

text \<open>
  \<open>show_found_functions_with_deviation\<close>: three evaluations, then plotting (which only reads
  the three arrays). The result is what is handed to the plotting backend together with
  the dictionary as the call leaves it.
\<close>

definition show_found_functions_with_deviation ::
  "found_functions \<Rightarrow> flt list
     \<Rightarrow> py_error + ((flt list list \<times> flt list list \<times> flt list list) \<times> found_functions)" where
  "show_found_functions_with_deviation found tt =
     (case get_future_points found tt [] of
        Inl e \<Rightarrow> Inl e
      | Inr (trajectory, found1) \<Rightarrow>
          (case get_future_points found1 tt ''up'' of
             Inl e \<Rightarrow> Inl e
           | Inr (trajectory_up, found2) \<Rightarrow>
               (case get_future_points found2 tt ''down'' of
                  Inl e \<Rightarrow> Inl e
                | Inr (trajectory_down, found3) \<Rightarrow>
                    Inr ((trajectory, trajectory_up, trajectory_down), found3))))"

text \<open>
  \<^verbatim>\<open>mean = get_future_points(found_functions, np.asarray([t]))
  standard_deviation_up = np.absolute(get_future_points(..., 'up') - mean)
  standard_deviation_down = np.absolute(get_future_points(..., 'down') - mean)
  standard_deviation = np.maximum(standard_deviation_up, standard_deviation_down)
  standard_deviation = np.where(standard_deviation > threshold_sd, standard_deviation, threshold_sd)
  weights = np.ones(len(found_functions)); weights /= np.sum(weights)\<close>
\<close>

definition abs_diff :: "flt list list \<Rightarrow> flt list list \<Rightarrow> flt list list" where
  "abs_diff a b = map (\<lambda>(r, s). map (\<lambda>(x, y). fabs (fsub x y)) (zip r s)) (zip a b)"

definition floor_sd :: "real \<Rightarrow> flt \<Rightarrow> flt" where
  "floor_sd threshold_sd x = (if fless (Num threshold_sd) x then x else Num threshold_sd)"

definition get_gaussian_params ::
  "found_functions \<Rightarrow> flt \<Rightarrow> real
     \<Rightarrow> py_error + ((flt list list \<times> flt list list \<times> real list) \<times> found_functions)" where
  "get_gaussian_params found t threshold_sd =
     (case get_future_points found [t] [] of
        Inl e \<Rightarrow> Inl e
      | Inr (mean, found1) \<Rightarrow>
          (case get_future_points found1 [t] ''up'' of
             Inl e \<Rightarrow> Inl e
           | Inr (up, found2) \<Rightarrow>
               (case get_future_points found2 [t] ''down'' of
                  Inl e \<Rightarrow> Inl e
                | Inr (down, found3) \<Rightarrow>
                    (let standard_deviation_up = abs_diff up mean;
                         standard_deviation_down = abs_diff down mean;
                         standard_deviation =
                           map (\<lambda>(r, s). map (\<lambda>(x, y). fmaximum x y) (zip r s))
                             (zip standard_deviation_up standard_deviation_down);
                         standard_deviation' = map (map (floor_sd threshold_sd)) standard_deviation;
                         weights = replicate (length found) (1 / real (length found))
                     in Inr ((mean, standard_deviation', weights), found3)))))"

text \<open>The first statement of \<open>probability_of_being_in_point(found_functions, t, step)\<close>:
  \<^verbatim>\<open>mean, standard_deviation, weights = get_gaussian_params(found_functions, t, step)\<close>.
  Its default \<open>step\<close> is 0.1.\<close>

definition probability_of_being_in_point_params ::
  "found_functions \<Rightarrow> flt \<Rightarrow> real
     \<Rightarrow> py_error + ((flt list list \<times> flt list list \<times> real list) \<times> found_functions)" where
  "probability_of_being_in_point_params found t step = get_gaussian_params found t step"

section \<open>moving\_detection.py: arrays, colours and the random source\<close>

text \<open>
  A two-dimensional numpy array is a function on index pairs together with its shape; only
  the entries inside the shape exist. Colours and depths of the detectors are real numbers.
  Every frame handed to a detector has the shape of the frame it was constructed from.
\<close>

type_synonym 'a arr2 = "int \<times> int \<Rightarrow> 'a"

text \<open>The index pairs of a \<open>height\<close> by \<open>width\<close> array in the order of
  \<^verbatim>\<open>for i in range(height): for j in range(width)\<close>.\<close>

definition pixels :: "int \<Rightarrow> int \<Rightarrow> (int \<times> int) list" where
  "pixels height width = concat (map (\<lambda>i. map (\<lambda>j. (i, j)) [0..width - 1]) [0..height - 1])"








section \<open>moving\_detection.py: ViBE\<close>









section \<open>moving\_detection.py: DEVB\<close>








section \<open>moving\_detection.py: RGB mixture of Gaussians\<close>

text \<open>The dataclass \<open>Gaussian\<close>: the mixture of one pixel, one entry per component in every
  array, over the type of its numbers. \<open>depth_observations\<close> has a row (numerator, count) per
  component.\<close>

record 'a Gaussian =
  index :: "int \<times> int"
  luminance_mean :: "'a list"
  color_mean :: "'a list list"
  depth_mean :: "'a list"
  luminance_variance :: "'a list"
  color_variance :: "'a list"
  depth_variance :: "'a list"
  weight :: "'a list"
  ranking :: "nat list"
  depth_observations :: "('a \<times> 'a) list"

text \<open>
  \<open>np.argsort\<close> of a short array: the indices ordered by their values, equal values in index
  order (numpy sorts arrays of at most 16 entries by insertion).
\<close>

definition argsort :: "real list \<Rightarrow> nat list" where
  "argsort xs = sort_key (\<lambda>i. xs ! i) [0..<length xs]"

text \<open>\<open>np.sum((pixel - mean) ** 2)\<close> over the channels of one component.\<close>

definition squared_error :: "real list \<Rightarrow> real list \<Rightarrow> real" where
  "squared_error pixel mean = sum_list (map (\<lambda>(c, m). (c - m)\<^sup>2) (zip pixel mean))"

text \<open>
  The numbers of \<open>RGB_MoG\<close> are doubles in which a variance can reach zero and the argument
  of a square root can be negative: a real number, an infinity or not-a-number, with the
  arithmetic of IEEE 754 on them. The sign of zero is not kept (a division by zero takes
  the sign of its numerator), and rounding and overflow are not modelled.
\<close>

datatype npfloat = Finite real | PosInf | NegInf | NotANumber

fun xneg :: "npfloat \<Rightarrow> npfloat" where
  "xneg (Finite a) = Finite (- a)"
| "xneg PosInf = NegInf"
| "xneg NegInf = PosInf"
| "xneg NotANumber = NotANumber"

fun xadd :: "npfloat \<Rightarrow> npfloat \<Rightarrow> npfloat" where
  "xadd (Finite a) (Finite b) = Finite (a + b)"
| "xadd NotANumber _ = NotANumber"
| "xadd _ NotANumber = NotANumber"
| "xadd PosInf NegInf = NotANumber"
| "xadd NegInf PosInf = NotANumber"
| "xadd PosInf _ = PosInf"
| "xadd _ PosInf = PosInf"
| "xadd NegInf _ = NegInf"
| "xadd _ NegInf = NegInf"

definition xsub :: "npfloat \<Rightarrow> npfloat \<Rightarrow> npfloat" where
  "xsub a b = xadd a (xneg b)"

text \<open>The sign of a number that is not NaN: 1, 0 or -1.\<close>

fun xsign :: "npfloat \<Rightarrow> int" where
  "xsign (Finite a) = (if a > 0 then 1 else if a < 0 then - 1 else 0)"
| "xsign PosInf = 1"
| "xsign NegInf = - 1"
| "xsign NotANumber = 0"

definition signed_inf :: "int \<Rightarrow> npfloat" where
  "signed_inf s = (if s > 0 then PosInf else if s < 0 then NegInf else NotANumber)"

fun xmul :: "npfloat \<Rightarrow> npfloat \<Rightarrow> npfloat" where
  "xmul (Finite a) (Finite b) = Finite (a * b)"
| "xmul NotANumber _ = NotANumber"
| "xmul _ NotANumber = NotANumber"
| "xmul a b = signed_inf (xsign a * xsign b)"

fun xdiv :: "npfloat \<Rightarrow> npfloat \<Rightarrow> npfloat" where
  "xdiv (Finite a) (Finite b) = (if b = 0 then signed_inf (xsign (Finite a)) else Finite (a / b))"
| "xdiv NotANumber _ = NotANumber"
| "xdiv _ NotANumber = NotANumber"
| "xdiv (Finite a) _ = Finite 0"
| "xdiv a (Finite b) = signed_inf (xsign a * (if b < 0 then - 1 else 1))"
| "xdiv _ _ = NotANumber"

fun xsqrt :: "npfloat \<Rightarrow> npfloat" where
  "xsqrt (Finite a) = (if a < 0 then NotANumber else Finite (sqrt a))"
| "xsqrt PosInf = PosInf"
| "xsqrt _ = NotANumber"

fun xexp :: "npfloat \<Rightarrow> npfloat" where
  "xexp (Finite a) = Finite (exp a)"
| "xexp PosInf = PosInf"
| "xexp NegInf = Finite 0"
| "xexp NotANumber = NotANumber"

fun xless :: "npfloat \<Rightarrow> npfloat \<Rightarrow> bool" where
  "xless (Finite a) (Finite b) = (a < b)"
| "xless NotANumber _ = False"
| "xless _ NotANumber = False"
| "xless NegInf NegInf = False"
| "xless NegInf _ = True"
| "xless PosInf _ = False"
| "xless _ PosInf = True"
| "xless _ NegInf = False"

definition xsum :: "npfloat list \<Rightarrow> npfloat" where
  "xsum xs = foldl xadd (Finite 0) xs"




text \<open>\<open>np.sum((pixel - mean) ** 2)\<close> over the channels of one component.\<close>

definition xsquared_error :: "npfloat list \<Rightarrow> npfloat list \<Rightarrow> npfloat" where
  "xsquared_error pixel mean = xsum (map (\<lambda>(c, m). xmul (xsub c m) (xsub c m)) (zip pixel mean))"

record rgb_mog =
  rm_number_of_gaussians :: nat
  rm_learning_rate_alfa :: real
  rm_height :: int
  rm_width :: int
  rm_current_rgb :: "npfloat list arr2"
  rm_gaussians :: "npfloat Gaussian list"
  rm_mask :: "real arr2"

text \<open>\<open>RGB_MoG.__init__\<close> and \<open>initialization\<close>: every component starts at the colour of the
  pixel with variance 1 and weight 1/n; the mask is all zero.\<close>

definition rgb_mog_init :: "int \<Rightarrow> int \<Rightarrow> npfloat list arr2 \<Rightarrow> nat \<Rightarrow> real \<Rightarrow> rgb_mog" where
  "rgb_mog_init height width rgb_im number_of_gaussians learning_rate_alfa =
     \<lparr>rm_number_of_gaussians = number_of_gaussians,
      rm_learning_rate_alfa = learning_rate_alfa,
      rm_height = height, rm_width = width, rm_current_rgb = rgb_im,
      rm_gaussians =
        map (\<lambda>p. \<lparr>index = p, luminance_mean = [],
                  color_mean = replicate number_of_gaussians (rgb_im p), depth_mean = [],
                  luminance_variance = [],
                  color_variance = replicate number_of_gaussians (Finite 1), depth_variance = [],
                  weight = replicate number_of_gaussians (Finite (1 / real number_of_gaussians)),
                  ranking = [0..<number_of_gaussians], depth_observations = []\<rparr>)
          (pixels height width),
      rm_mask = (\<lambda>p. 0)\<rparr>"


text \<open>
  \<^verbatim>\<open>dist_square = np.sum((pixel - gauss.color_mean) ** 2, axis=1) / gauss.color_variance
  dist = np.sqrt(dist_square)
  probability = np.exp(dist_square / (-2)) / (np.sqrt((2 * np.pi) ** 3) * gauss.color_variance)
  matching_criterion = (dist < 2.5 * gauss.color_variance)\<close>
\<close>

definition rgb_probability :: "npfloat list \<Rightarrow> npfloat Gaussian \<Rightarrow> bool list \<times> npfloat list" where
  "rgb_probability pixel gauss =
     (let dist_square = map (\<lambda>(m, v). xdiv (xsquared_error pixel m) v)
                          (zip (color_mean gauss) (color_variance gauss));
          dist = map xsqrt dist_square;
          probability = map (\<lambda>(d, v). xdiv (xexp (xdiv d (Finite (- 2))))
                                         (xmul (Finite (sqrt ((2 * pi) ^ 3))) v))
                          (zip dist_square (color_variance gauss));
          matching_criterion = map (\<lambda>(d, v). xless d (xmul (Finite 2.5) v))
                                 (zip dist (color_variance gauss))
      in (matching_criterion, probability))"

text \<open>
  \<open>update\<close>, on a mixture of \<open>number_of_gaussians\<close> components. \<open>update_mask\<close> is 1 on a
  matching component, 0 on a non-matching one when some component matches, and -1
  everywhere when none does. The squared error in the variance is \<open>np.sum\<close> over the whole
  array \<open>(pixel - gauss.color_mean) ** 2\<close>, all components together, taken before the means
  change.
\<close>

definition rgb_update ::
  "nat \<Rightarrow> real \<Rightarrow> npfloat list \<Rightarrow> npfloat Gaussian \<Rightarrow> bool list \<Rightarrow> npfloat list \<Rightarrow> npfloat Gaussian" where
  "rgb_update number_of_gaussians alfa pixel gauss matching_criterion probability =
     (let learning_rate_ro = map (\<lambda>p. xmul (Finite alfa) p) probability;
          update_status = (True \<in> set matching_criterion);
          update_mask = map (\<lambda>m. if update_status then (if m then 1 else 0) else (- 1 :: int))
                          matching_criterion;
          total_error = xsum (map (xsquared_error pixel) (color_mean gauss));
          weight' = map (\<lambda>(u, w). if u = 1 then xadd (xmul (Finite (1 - alfa)) w) (Finite alfa)
                                  else xmul (Finite (1 - alfa)) w)
                      (zip update_mask (weight gauss));
          variance' = map (\<lambda>(u, ro, v, d).
                             if u = 1
                             then xsqrt (xadd (xmul (xsub (Finite 1) ro) (xmul v v)) (xmul ro total_error))
                             else d)
                        (zip update_mask (zip learning_rate_ro (zip (color_variance gauss)
                           (replicate number_of_gaussians (Finite (3 + 1))))));
          mean' = map (\<lambda>i. if update_mask ! i = 1
                            then map (\<lambda>(m, c). xadd (xmul (xsub (Finite 1) (learning_rate_ro ! i)) m)
                                                   (xmul (learning_rate_ro ! i) c))
                                   (zip (color_mean gauss ! i) pixel)
                            else pixel)
                    [0..<number_of_gaussians]
      in gauss\<lparr>weight := weight', color_variance := variance',
               color_mean := mean' @ drop number_of_gaussians (color_mean gauss)\<rparr>)"





section \<open>moving\_detection.py: RGBD mixture of Gaussians\<close>

type_synonym rgb = "real \<times> real \<times> real"

text \<open>\<open>RGB_to_YUV\<close> on one pixel: \<open>np.dot(rgb, m)\<close>, then 128 added to the two chroma values.\<close>

fun RGB_to_YUV :: "rgb \<Rightarrow> rgb" where
  "RGB_to_YUV (r, g, b) =
     (0.29900 * r + 0.58700 * g + 0.11400 * b,
      - 0.16874 * r - 0.33126 * g + 0.50000 * b + 128.0,
      0.50000 * r - 0.41869 * g - 0.08131 * b + 128.0)"

fun luminance :: "rgb \<Rightarrow> real" where
  "luminance (y, u, v) = y"

fun chroma :: "rgb \<Rightarrow> real list" where
  "chroma (y, u, v) = [u, v]"

text \<open>A float stored into an integer array is truncated towards zero.\<close>

definition trunc :: "real \<Rightarrow> int" where
  "trunc x = (if 0 \<le> x then \<lfloor>x\<rfloor> else \<lceil>x\<rceil>)"

text \<open>The value of a Python boolean in arithmetic.\<close>

definition of_bool_real :: "bool \<Rightarrow> real" where
  "of_bool_real b = (if b then 1 else 0)"

text \<open>\<open>np.max\<close>, \<open>np.min\<close>, \<open>np.argmax\<close> and \<open>np.argmin\<close> of a non-empty one-dimensional array;
  the first index wins among equal entries.\<close>

definition amax :: "real list \<Rightarrow> real" where
  "amax xs = fold max (tl xs) (hd xs)"

definition amin :: "real list \<Rightarrow> real" where
  "amin xs = fold min (tl xs) (hd xs)"

definition argmax :: "real list \<Rightarrow> nat" where
  "argmax xs = length (takeWhile (\<lambda>x. x \<noteq> amax xs) xs)"

definition argmin :: "real list \<Rightarrow> nat" where
  "argmin xs = length (takeWhile (\<lambda>x. x \<noteq> amin xs) xs)"

record rgbd_mog =
  rd_number_of_gaussians :: nat
  rd_learning_rate_alfa :: real
  rd_depth_reliability_ro :: real
  rd_matching_rate_beta :: real
  rd_luminance_min :: real
  rd_depth_threshold :: real
  rd_reliability_threshold :: real
  rd_height :: int
  rd_width :: int
  rd_current_yuv :: "rgb arr2"
  rd_current_depth :: "real arr2"
  rd_gaussians :: "real Gaussian list"
  rd_mask :: "real arr2"

text \<open>
  \<open>RGBD_MoG.initialization\<close>. The observation rows come from
  \<^verbatim>\<open>np.where(depth == 255, np.asarray([[0, 1]] * 3), np.asarray([[1, 1]] * 3))\<close>:
  three rows whatever the number of components, in an array of integers, so that every
  value stored there later is truncated.
\<close>

definition rgbd_mog_init ::
  "int \<Rightarrow> int \<Rightarrow> rgb arr2 \<Rightarrow> real arr2 \<Rightarrow> nat \<Rightarrow> real \<Rightarrow> real \<Rightarrow> real \<Rightarrow> real \<Rightarrow> real \<Rightarrow> real \<Rightarrow> rgbd_mog" where
  "rgbd_mog_init height width rgb_im depth_im number_of_gaussians learning_rate_alfa
       depth_reliability_ro matching_rate_beta luminance_min depth_threshold reliability_threshold =
     \<lparr>rd_number_of_gaussians = number_of_gaussians,
      rd_learning_rate_alfa = learning_rate_alfa,
      rd_depth_reliability_ro = depth_reliability_ro,
      rd_matching_rate_beta = matching_rate_beta,
      rd_luminance_min = luminance_min,
      rd_depth_threshold = depth_threshold,
      rd_reliability_threshold = reliability_threshold,
      rd_height = height, rd_width = width,
      rd_current_yuv = (\<lambda>p. RGB_to_YUV (rgb_im p)),
      rd_current_depth = depth_im,
      rd_gaussians =
        map (\<lambda>p. \<lparr>index = p,
                  luminance_mean = replicate number_of_gaussians (luminance (RGB_to_YUV (rgb_im p))),
                  color_mean = replicate number_of_gaussians (chroma (RGB_to_YUV (rgb_im p))),
                  depth_mean = replicate number_of_gaussians (depth_im p),
                  luminance_variance = replicate number_of_gaussians 1,
                  color_variance = replicate number_of_gaussians 1,
                  depth_variance = replicate number_of_gaussians 1,
                  weight = replicate number_of_gaussians (1 / real number_of_gaussians),
                  ranking = [0..<number_of_gaussians],
                  depth_observations =
                    replicate 3 (if depth_im p = 255 then (0, 1) else (1, 1))\<rparr>)
          (pixels height width),
      rd_mask = (\<lambda>p. 0)\<rparr>"

text \<open>\<open>set_ranking\<close>: \<^verbatim>\<open>gauss.ranking = np.argsort(-gauss.weight / gauss.luminance_variance)\<close>\<close>

definition rgbd_set_ranking :: "real Gaussian \<Rightarrow> real Gaussian" where
  "rgbd_set_ranking gauss =
     gauss\<lparr>ranking := argsort (map (\<lambda>(w, v). - w / v) (zip (weight gauss) (luminance_variance gauss)))\<rparr>"

text \<open>The ratio \<open>depth_observations[i, 0] / depth_observations[i, 1]\<close>.\<close>

definition observation_ratio :: "real \<times> real \<Rightarrow> real" where
  "observation_ratio obs = fst obs / snd obs"

text \<open>
  \<open>matching\<close>, component \<open>i\<close>. The chroma test squares the sum of the two chroma differences:
  \<^verbatim>\<open>np.sum((yuv_pixel[1:] - gauss.color_mean), axis=1) ** 2 < beta * gauss.color_variance\<close>.
\<close>

definition rgbd_matching_at :: "rgbd_mog \<Rightarrow> real Gaussian \<Rightarrow> nat \<Rightarrow> bool" where
  "rgbd_matching_at s gauss i =
     (let yuv_pixel = rd_current_yuv s (index gauss);
          depth_pixel = rd_current_depth s (index gauss);
          beta = (rd_matching_rate_beta s)\<^sup>2;
          depth_matching =
            ((depth_pixel - depth_mean gauss ! i)\<^sup>2 < beta * depth_variance gauss ! i
             \<or> depth_pixel = 255
             \<or> observation_ratio (depth_observations gauss ! i) < rd_depth_reliability_ro s);
          color_condition_1 =
            (luminance_mean gauss ! i > rd_luminance_min s \<and> luminance yuv_pixel > rd_luminance_min s);
          color_condition_2 =
            ((luminance yuv_pixel - luminance_mean gauss ! i)\<^sup>2 < beta * luminance_variance gauss ! i);
          color_condition_3 =
            ((sum_list (map (\<lambda>(c, m). c - m) (zip (chroma yuv_pixel) (color_mean gauss ! i))))\<^sup>2
               < beta * color_variance gauss ! i);
          color_matching =
            (if color_condition_1 then color_condition_2 \<or> color_condition_3 else color_condition_2)
      in depth_matching \<and> color_matching)"

definition rgbd_matching :: "rgbd_mog \<Rightarrow> real Gaussian \<Rightarrow> bool list" where
  "rgbd_matching s gauss = map (rgbd_matching_at s gauss) [0..<rd_number_of_gaussians s]"

text \<open>
  \<open>update\<close>. When some component matches, the matching ones move towards the observation;
  the variances use the means from before the update. Otherwise the component ranked last
  is replaced.
\<close>

definition rgbd_update :: "rgbd_mog \<Rightarrow> real Gaussian \<Rightarrow> bool list \<Rightarrow> real \<Rightarrow> real Gaussian" where
  "rgbd_update s gauss matching_criterion number_of_observations =
     (let yuv_pixel = rd_current_yuv s (index gauss);
          depth_pixel = rd_current_depth s (index gauss);
          alfa = rd_learning_rate_alfa s;
          n = rd_number_of_gaussians s
      in if True \<in> set matching_criterion then
           gauss\<lparr>luminance_variance :=
                   map (\<lambda>i. if matching_criterion ! i
                             then (1 - alfa) * luminance_variance gauss ! i
                                  + alfa * (luminance yuv_pixel - luminance_mean gauss ! i)\<^sup>2
                             else luminance_variance gauss ! i) [0..<n],
                 luminance_mean :=
                   map (\<lambda>i. if matching_criterion ! i
                             then (1 - alfa) * luminance_mean gauss ! i + alfa * luminance yuv_pixel
                             else luminance_mean gauss ! i) [0..<n],
                 color_variance :=
                   map (\<lambda>i. if matching_criterion ! i
                             then (1 - alfa) * color_variance gauss ! i
                                  + alfa * squared_error (chroma yuv_pixel) (color_mean gauss ! i)
                             else color_variance gauss ! i) [0..<n],
                 color_mean :=
                   map (\<lambda>i. if matching_criterion ! i
                             then map (\<lambda>(m, c). (1 - alfa) * m + alfa * c)
                                    (zip (color_mean gauss ! i) (chroma yuv_pixel))
                             else color_mean gauss ! i) [0..<n],
                 depth_observations :=
                   map (\<lambda>i. if i < n \<and> matching_criterion ! i
                             then (real_of_int (trunc ((1 - alfa) * fst (depth_observations gauss ! i)
                                      + alfa * of_bool_real (depth_pixel < 255))),
                                   real_of_int (trunc number_of_observations))
                             else depth_observations gauss ! i)
                     [0..<length (depth_observations gauss)],
                 depth_variance :=
                   map (\<lambda>i. if matching_criterion ! i
                             then (1 - alfa) * depth_variance gauss ! i
                                  + alfa * (depth_pixel - depth_mean gauss ! i)\<^sup>2
                             else depth_variance gauss ! i) [0..<n],
                 depth_mean :=
                   map (\<lambda>i. if matching_criterion ! i
                             then (1 - alfa) * depth_mean gauss ! i + alfa * depth_pixel
                             else depth_mean gauss ! i) [0..<n],
                 weight :=
                   map (\<lambda>i. if matching_criterion ! i
                             then (1 - alfa) * weight gauss ! i + alfa * of_bool_real (matching_criterion ! i)
                             else weight gauss ! i) [0..<n]\<rparr>
         else
           (let index' = last (ranking gauss) in
            gauss\<lparr>luminance_mean := (luminance_mean gauss)[index' := luminance yuv_pixel],
                  color_mean := (color_mean gauss)[index' := chroma yuv_pixel],
                  depth_mean := (depth_mean gauss)[index' := depth_pixel],
                  luminance_variance := (luminance_variance gauss)[index' := 1],
                  color_variance := (color_variance gauss)[index' := 1],
                  depth_variance := (depth_variance gauss)[index' := 1],
                  weight := (weight gauss)[index' := alfa],
                  depth_observations := (depth_observations gauss)
                     [index' := (real_of_int (trunc (alfa * of_bool_real (depth_pixel < 255))),
                                 real_of_int (trunc number_of_observations))]\<rparr>))"

text \<open>
  The first loop of \<open>pixel_mask\<close>, over \<open>np.argsort(-gauss.depth_mean)\<close>: the marks and the
  running \<open>max_depth\<close>. The test \<open>weight > depth_threshold < 255\<close> is a chained comparison.
\<close>

fun depth_reliability_loop ::
  "rgbd_mog \<Rightarrow> real Gaussian \<Rightarrow> nat list \<Rightarrow> real \<Rightarrow> nat set \<Rightarrow> nat set" where
  "depth_reliability_loop s gauss [] max_depth marked = marked"
| "depth_reliability_loop s gauss (i # rest) max_depth marked =
     (if observation_ratio (depth_observations gauss ! i) > rd_depth_reliability_ro s
         \<and> weight gauss ! i > rd_depth_threshold s \<and> rd_depth_threshold s < 255
         \<and> depth_mean gauss ! i \<ge> max_depth
      then depth_reliability_loop s gauss rest (depth_mean gauss ! i) (insert i marked)
      else depth_reliability_loop s gauss rest max_depth marked)"

text \<open>
  The second loop:
  \<^verbatim>\<open>for index in gauss.ranking:
      while threshold < reliability_threshold:
          threshold += gauss.weight[index]
          color_reliability[index] = 1\<close>
  The inner loop does not end when the weight is not positive.
\<close>

partial_function (option) color_reliability_while ::
  "real \<Rightarrow> real \<Rightarrow> real \<Rightarrow> bool \<Rightarrow> (real \<times> bool) option" where
  "color_reliability_while threshold reliability_threshold w marked =
     (if threshold < reliability_threshold
      then color_reliability_while (threshold + w) reliability_threshold w True
      else Some (threshold, marked))"

declare color_reliability_while.simps [code]

fun color_reliability_loop ::
  "rgbd_mog \<Rightarrow> real Gaussian \<Rightarrow> nat list \<Rightarrow> real \<Rightarrow> nat set \<Rightarrow> nat set option" where
  "color_reliability_loop s gauss [] threshold marked = Some marked"
| "color_reliability_loop s gauss (i # rest) threshold marked =
     (case color_reliability_while threshold (rd_reliability_threshold s) (weight gauss ! i) False of
        None \<Rightarrow> None
      | Some (threshold', m) \<Rightarrow>
          color_reliability_loop s gauss rest threshold' (if m then insert i marked else marked))"

text \<open>\<open>pixel_mask\<close>: the value written to the pixel's mask entry, 0 for background and 255
  for foreground.\<close>

definition rgbd_pixel_mask :: "rgbd_mog \<Rightarrow> real Gaussian \<Rightarrow> bool list \<Rightarrow> real option" where
  "rgbd_pixel_mask s gauss matching_criterion =
     (let depth_reliability =
            depth_reliability_loop s gauss (argsort (map uminus (depth_mean gauss))) 0 {}
      in case color_reliability_loop s gauss (ranking gauss) 0 {} of
           None \<Rightarrow> None
         | Some color_reliability \<Rightarrow>
             (let pixel_reliability =
                    (rd_current_depth s (index gauss) = 255
                     \<and> luminance (rd_current_yuv s (index gauss)) \<le> rd_luminance_min s);
                  background =
                    ((\<exists>i \<in> set [0..<length matching_criterion].
                         matching_criterion ! i \<and> i \<in> color_reliability)
                     \<or> (\<exists>i \<in> set [0..<length matching_criterion].
                         matching_criterion ! i \<and> i \<in> depth_reliability)
                     \<or> pixel_reliability)
              in Some (if background then 0 else 255)))"

text \<open>
  \<open>set_mask\<close>. \<open>self.__gaussians[0]\<close> raises on a frame without pixels. The result is \<open>None\<close>
  when the call does not return.
\<close>

fun rgbd_set_mask_loop ::
  "rgbd_mog \<Rightarrow> real \<Rightarrow> real Gaussian list \<Rightarrow> real arr2 \<Rightarrow> (real Gaussian list \<times> real arr2) option" where
  "rgbd_set_mask_loop s number_of_observations [] msk = Some ([], msk)"
| "rgbd_set_mask_loop s number_of_observations (gauss # rest) msk =
     (let g1 = rgbd_set_ranking gauss;
          matching_criterion = rgbd_matching s g1;
          g2 = rgbd_update s g1 matching_criterion number_of_observations
      in case rgbd_pixel_mask s g2 matching_criterion of
           None \<Rightarrow> None
         | Some v \<Rightarrow>
             (case rgbd_set_mask_loop s number_of_observations rest (msk((index gauss) := v)) of
                None \<Rightarrow> None
              | Some (rest', msk') \<Rightarrow> Some (g2 # rest', msk')))"

definition rgbd_set_mask :: "rgb arr2 \<Rightarrow> real arr2 \<Rightarrow> rgbd_mog \<Rightarrow> (py_error + rgbd_mog) option" where
  "rgbd_set_mask rgb_im depth_im s =
     (let s1 = s\<lparr>rd_current_yuv := (\<lambda>p. RGB_to_YUV (rgb_im p)), rd_current_depth := depth_im\<rparr>
      in case rd_gaussians s1 of
           [] \<Rightarrow> Some (Inl IndexError)
         | g0 # _ \<Rightarrow>
             (case depth_observations g0 of
                [] \<Rightarrow> Some (Inl IndexError)
              | obs0 # _ \<Rightarrow>
                  (case rgbd_set_mask_loop s1 (snd obs0 + 1) (rd_gaussians s1) (rd_mask s1) of
                     None \<Rightarrow> None
                   | Some (gs, msk) \<Rightarrow> Some (Inr (s1\<lparr>rd_gaussians := gs, rd_mask := msk\<rparr>)))))"

section \<open>moving\_detection.py: Fast RGBD mixture of Gaussians\<close>

text \<open>
  The arrays of \<open>Fast_RGBD_MoG\<close>, indexed by flattened pixel, then channel (luminance, two
  chroma channels, depth), then component: \<open>mean\<close>, \<open>variance\<close> and \<open>weight\<close> have shape
  pixels by 4 by components, \<open>depth_observations\<close> pixels by 2 by components (floats).
\<close>

record fast_rgbd_mog =
  fm_number_of_gaussians :: nat
  fm_learning_rate_alfa :: real
  fm_depth_reliability_ro :: real
  fm_matching_rate_beta :: real
  fm_luminance_min :: real
  fm_depth_threshold :: real
  fm_reliability_threshold :: real
  fm_default_variance :: real
  fm_height :: int
  fm_width :: int
  fm_current_yuv :: "real list list"
  fm_current_depth :: "real list"
  fm_mean :: "real list list list"
  fm_variance :: "real list list list"
  fm_weight :: "real list list list"
  fm_depth_observations :: "real list list list"

fun yuv_row :: "rgb \<Rightarrow> real list" where
  "yuv_row (y, u, v) = [y, u, v]"

text \<open>\<open>RGB_to_YUV(rgb_im).reshape(-1, 3)\<close> and \<open>depth_im.flatten()\<close>.\<close>

definition flatten_yuv :: "int \<Rightarrow> int \<Rightarrow> rgb arr2 \<Rightarrow> real list list" where
  "flatten_yuv height width rgb_im = map (\<lambda>p. yuv_row (RGB_to_YUV (rgb_im p))) (pixels height width)"

definition flatten_depth :: "int \<Rightarrow> int \<Rightarrow> real arr2 \<Rightarrow> real list" where
  "flatten_depth height width depth_im = map depth_im (pixels height width)"

text \<open>\<open>np.c_[self.__current_yuv, self.__current_depth]\<close>: the four observed channels of every
  pixel.\<close>

definition new_data :: "fast_rgbd_mog \<Rightarrow> real list list" where
  "new_data s = map (\<lambda>(yuv, d). yuv @ [d]) (zip (fm_current_yuv s) (fm_current_depth s))"

definition fast_rgbd_mog_init ::
  "int \<Rightarrow> int \<Rightarrow> rgb arr2 \<Rightarrow> real arr2 \<Rightarrow> nat \<Rightarrow> real \<Rightarrow> real \<Rightarrow> real \<Rightarrow> real \<Rightarrow> real \<Rightarrow> real \<Rightarrow> real
     \<Rightarrow> fast_rgbd_mog" where
  "fast_rgbd_mog_init height width rgb_im depth_im number_of_gaussians learning_rate_alfa
       depth_reliability_ro matching_rate_beta luminance_min depth_threshold reliability_threshold
       default_variance =
     (let yuv = flatten_yuv height width rgb_im;
          depth = flatten_depth height width depth_im
      in \<lparr>fm_number_of_gaussians = number_of_gaussians,
          fm_learning_rate_alfa = learning_rate_alfa,
          fm_depth_reliability_ro = depth_reliability_ro,
          fm_matching_rate_beta = matching_rate_beta,
          fm_luminance_min = luminance_min,
          fm_depth_threshold = depth_threshold,
          fm_reliability_threshold = reliability_threshold,
          fm_default_variance = default_variance,
          fm_height = height, fm_width = width,
          fm_current_yuv = yuv, fm_current_depth = depth,
          fm_mean = map (\<lambda>(row, d). map (replicate number_of_gaussians) (row @ [d])) (zip yuv depth),
          fm_variance = map (\<lambda>d. replicate 4 (replicate number_of_gaussians (1 * default_variance))) depth,
          fm_weight = map (\<lambda>d. replicate 4 (replicate number_of_gaussians (1 / real number_of_gaussians))) depth,
          fm_depth_observations =
            map (\<lambda>d. [replicate number_of_gaussians (if d = 255 then 0 else 1),
                      replicate number_of_gaussians 1]) depth\<rparr>)"

text \<open>\<open>sort\<close>: for every pixel and channel, \<open>np.argmin(weight / variance, axis=2)\<close>.\<close>

definition fast_sort :: "fast_rgbd_mog \<Rightarrow> nat list list" where
  "fast_sort s =
     map (\<lambda>(ws, vs). map (\<lambda>(w, v). argmin (map (\<lambda>(a, b). a / b) (zip w v))) (zip ws vs))
       (zip (fm_weight s) (fm_variance s))"

text \<open>
  \<open>get_matching_criterion\<close>, pixel \<open>p\<close> and component \<open>g\<close>. The luminance test is
  \<^verbatim>\<open>self.__current_yuv[:, 0, np.newaxis] - self.__mean[:, 0] ** 2 < beta * self.__variance[:, 0]\<close>:
  the power binds tighter than the subtraction.
\<close>

definition fast_matching_at :: "fast_rgbd_mog \<Rightarrow> nat \<Rightarrow> nat \<Rightarrow> bool" where
  "fast_matching_at s p g =
     (let beta = (fm_matching_rate_beta s)\<^sup>2;
          yuv = fm_current_yuv s ! p;
          depth = fm_current_depth s ! p;
          mean = fm_mean s ! p;
          variance = fm_variance s ! p;
          d_c_1 = ((depth - mean ! 3 ! g)\<^sup>2 < beta * variance ! 3 ! g);
          d_c_2 = (depth = 255);
          d_c_3 = (fm_depth_observations s ! p ! 0 ! g / fm_depth_observations s ! p ! 1 ! g
                     < fm_depth_reliability_ro s);
          depth_matching = (d_c_1 \<or> d_c_2 \<or> d_c_3);
          c_c_1 = (mean ! 0 ! g > fm_luminance_min s \<and> yuv ! 0 > fm_luminance_min s);
          c_c_2 = (yuv ! 0 - (mean ! 0 ! g)\<^sup>2 < beta * variance ! 0 ! g);
          c_c_3 = (((yuv ! 1 - mean ! 1 ! g) + (yuv ! 2 - mean ! 2 ! g))\<^sup>2 < beta * variance ! 1 ! g);
          color_matching = (if c_c_1 then c_c_2 \<or> c_c_3 else c_c_2)
      in depth_matching \<and> color_matching)"

definition fast_get_matching_criterion :: "fast_rgbd_mog \<Rightarrow> bool list list" where
  "fast_get_matching_criterion s =
     map (\<lambda>p. map (fast_matching_at s p) [0..<fm_number_of_gaussians s])
       [0..<length (fm_current_depth s)]"

text \<open>\<open>update_mean\<close> and \<open>new_mean\<close>, for one pixel: its four channel rows.\<close>

definition update_mean :: "real \<Rightarrow> bool list \<Rightarrow> real list \<Rightarrow> real list list \<Rightarrow> real list list" where
  "update_mean alpha matching datum mean =
     map (\<lambda>(x, row). map (\<lambda>(m, v). if m then (1 - alpha) * v + alpha * x else v) (zip matching row))
       (zip datum mean)"

definition new_mean :: "nat list \<Rightarrow> real list \<Rightarrow> real list list \<Rightarrow> real list list" where
  "new_mean r datum mean = map (\<lambda>(k, x, row). row[k := x]) (zip r (zip datum mean))"

definition update_variance ::
  "real \<Rightarrow> bool list \<Rightarrow> real list \<Rightarrow> real list list \<Rightarrow> real list list \<Rightarrow> real list list" where
  "update_variance alpha matching datum mean variance =
     map (\<lambda>(x, mrow, vrow).
            map (\<lambda>(m, mu, v). if m then (1 - alpha) * v + alpha * (x - mu)\<^sup>2 else v)
              (zip matching (zip mrow vrow)))
       (zip datum (zip mean variance))"

definition new_variance :: "nat list \<Rightarrow> real \<Rightarrow> real list list \<Rightarrow> real list list" where
  "new_variance r default_variance variance = map (\<lambda>(k, row). row[k := default_variance]) (zip r variance)"

definition update_weight :: "real \<Rightarrow> bool list \<Rightarrow> real list list \<Rightarrow> real list list" where
  "update_weight alpha matching weights =
     map (\<lambda>row. map (\<lambda>(m, w). if m then (1 - alpha) * w + alpha else w) (zip matching row)) weights"

definition new_weight :: "nat list \<Rightarrow> real \<Rightarrow> real list list \<Rightarrow> real list list" where
  "new_weight r alfa weights = map (\<lambda>(k, row). row[k := alfa]) (zip r weights)"

text \<open>
  \<open>update_depth_observations\<close> moves the numerator of every component, matching or not, and
  counts one more frame. \<open>new_depth_observations\<close> writes at \<open>new_r = np.c_[r[idx, 0], r[idx, 1]]\<close>
  with \<open>idx = np.arange(0, r.shape[0], 4)\<close>: the second column of \<open>r\<close> is the channel, which is
  0 in these rows, so the entry of component 0 is the one replaced.
\<close>

definition update_depth_observations :: "real \<Rightarrow> real \<Rightarrow> real list list \<Rightarrow> real list list" where
  "update_depth_observations alfa depth obs =
     [map (\<lambda>a. (1 - alfa) * a + alfa * of_bool_real (depth < 255)) (obs ! 0),
      map (\<lambda>c. c + 1) (obs ! 1)]"

definition new_depth_observations :: "real \<Rightarrow> real \<Rightarrow> real list list \<Rightarrow> real list list" where
  "new_depth_observations alfa depth obs =
     [(obs ! 0)[0 := alfa * of_bool_real (depth < 255)],
      (obs ! 1)[0 := obs ! 1 ! 0 + 1]]"

text \<open>
  \<open>update\<close>: four \<open>np.where\<close> on whether some component of the pixel matches, assigned one
  after the other, so that \<open>update_variance\<close> reads the means already updated.
\<close>

definition fast_update :: "bool list list \<Rightarrow> nat list list \<Rightarrow> fast_rgbd_mog \<Rightarrow> fast_rgbd_mog" where
  "fast_update matching_criterion rank s =
     (let ps = [0..<length (fm_current_depth s)];
          data = new_data s;
          alfa = fm_learning_rate_alfa s;
          some = (\<lambda>p. True \<in> set (matching_criterion ! p));
          mean' = map (\<lambda>p. if some p then update_mean alfa (matching_criterion ! p) (data ! p) (fm_mean s ! p)
                            else new_mean (rank ! p) (data ! p) (fm_mean s ! p)) ps;
          variance' = map (\<lambda>p. if some p
                                then update_variance alfa (matching_criterion ! p) (data ! p) (mean' ! p)
                                       (fm_variance s ! p)
                                else new_variance (rank ! p) (fm_default_variance s) (fm_variance s ! p)) ps;
          weight' = map (\<lambda>p. if some p then update_weight alfa (matching_criterion ! p) (fm_weight s ! p)
                              else new_weight (rank ! p) alfa (fm_weight s ! p)) ps;
          obs' = map (\<lambda>p. if some p
                           then update_depth_observations alfa (fm_current_depth s ! p)
                                  (fm_depth_observations s ! p)
                           else new_depth_observations alfa (fm_current_depth s ! p)
                                  (fm_depth_observations s ! p)) ps
      in s\<lparr>fm_mean := mean', fm_variance := variance', fm_weight := weight',
            fm_depth_observations := obs'\<rparr>)"

text \<open>
  The loop of \<open>set_mask\<close> that marks colour-reliable components with -1, over all pixels at
  once, leaving as soon as every pixel's sum exceeds the threshold.
\<close>

fun fast_color_loop :: "real \<Rightarrow> nat list \<Rightarrow> real list list \<Rightarrow> real list \<Rightarrow> real list list" where
  "fast_color_loop reliability_threshold [] temp_weights weights_sum = temp_weights"
| "fast_color_loop reliability_threshold (g # rest) temp_weights weights_sum =
     (let temp_temp_weights =
            map (\<lambda>(row, s). if s \<le> reliability_threshold then row[argmax row := - 1] else row)
              (zip temp_weights weights_sum);
          weights_sum' =
            map (\<lambda>(row, s). if s \<le> reliability_threshold then s + amax row else s)
              (zip temp_weights weights_sum)
      in if list_all (\<lambda>s. s > reliability_threshold) weights_sum' then temp_temp_weights
         else fast_color_loop reliability_threshold rest temp_temp_weights weights_sum')"

text \<open>\<open>set_mask\<close>: the flattened mask. \<open>pixel_reliability\<close> is computed in the source and not
  used in \<open>background\<close>.\<close>

definition fast_set_mask :: "bool list list \<Rightarrow> fast_rgbd_mog \<Rightarrow> real list" where
  "fast_set_mask matching_criterion s =
     (let ps = [0..<length (fm_current_depth s)];
          gs = [0..<fm_number_of_gaussians s];
          condition = (\<lambda>p g.
             fm_depth_observations s ! p ! 0 ! g / fm_depth_observations s ! p ! 1 ! g
               > fm_depth_reliability_ro s
             \<and> fm_weight s ! p ! 3 ! g > fm_depth_threshold s \<and> fm_mean s ! p ! 3 ! g < 255);
          temp_depth = (\<lambda>p. map (\<lambda>g. if condition p g then fm_mean s ! p ! 3 ! g else 0) gs);
          depth_reliability = (\<lambda>p g. condition p g \<and> temp_depth p ! g = amax (temp_depth p));
          temp_weights =
            fast_color_loop (fm_reliability_threshold s) gs (map (\<lambda>p. fm_weight s ! p ! 0) ps)
              (map (\<lambda>p. 0) ps);
          color_reliability = (\<lambda>p g. temp_weights ! p ! g = - 1);
          final_condition_1 = (\<lambda>p. list_ex (\<lambda>g. matching_criterion ! p ! g \<and> color_reliability p g) gs);
          final_condition_2 = (\<lambda>p. list_ex (\<lambda>g. matching_criterion ! p ! g \<and> depth_reliability p g) gs)
      in map (\<lambda>p. if final_condition_1 p \<or> final_condition_2 p then 0 else 255) ps)"

text \<open>\<open>get_mask\<close>: the new state and the mask, \<open>mask.reshape(height, width)\<close> read at a pixel.\<close>

definition fast_get_mask :: "rgb arr2 \<Rightarrow> real arr2 \<Rightarrow> fast_rgbd_mog \<Rightarrow> fast_rgbd_mog \<times> real list" where
  "fast_get_mask rgb_im depth_im s =
     (let s1 = s\<lparr>fm_current_yuv := flatten_yuv (fm_height s) (fm_width s) rgb_im,
                 fm_current_depth := flatten_depth (fm_height s) (fm_width s) depth_im\<rparr>;
          rank = fast_sort s1;
          matching_criterion = fast_get_matching_criterion s1;
          s2 = fast_update matching_criterion rank s1
      in (s2, fast_set_mask matching_criterion s2))"

definition reshape :: "int \<Rightarrow> real list \<Rightarrow> real arr2" where
  "reshape width xs = (\<lambda>(i, j). xs ! nat (i * width + j))"

section \<open>moving\_detection.py: region growing\<close>

text \<open>The index pairs inside the shape, and \<open>a.flatten()\<close> in C order: \<open>np.sum\<close> and
  \<open>np.argmax\<close> of a two-dimensional array work on it.\<close>

type_synonym pix = "int \<times> int"

definition grid :: "int \<Rightarrow> int \<Rightarrow> pix set" where
  "grid height width = {p. 0 \<le> fst p \<and> fst p < height \<and> 0 \<le> snd p \<and> snd p < width}"

definition ravel :: "int \<Rightarrow> int \<Rightarrow> 'a arr2 \<Rightarrow> 'a list" where
  "ravel height width a = map (\<lambda>k. a (int k div width, int k mod width)) [0..<nat height * nat width]"

text \<open>The state of one region: the queue \<open>q\<close> and the arrays \<open>seeds\<close>, \<open>done\<close> and
  \<open>mask\<close>.\<close>

record grow_state =
  queue :: "pix list"
  gs_seeds :: "real arr2"
  gs_done :: "real arr2"
  gs_mask :: "real arr2"

text \<open>\<^verbatim>\<open>for i in range(ind[0] - 1, ind[0] + 2): for j in range(ind[1] - 1, ind[1] + 2)\<close>\<close>

definition neighbourhood :: "pix \<Rightarrow> pix list" where
  "neighbourhood ind =
     concat (map (\<lambda>i. map (\<lambda>j. (i, j)) [snd ind - 1..snd ind + 1]) [fst ind - 1..fst ind + 1])"

text \<open>
  The body of the two loops for one neighbour \<open>(i, j)\<close> of the pixel \<open>ind\<close> taken from the
  queue:
  \<^verbatim>\<open>if -1 < i < current_depth.shape[0] and -1 < j < current_depth.shape[1]:
      if not done[i, j] == 1 and not current_depth[i, j] >= 1:
          if math.fabs(current_depth[i, j] - current_depth[ind[0], ind[1]]) < depth_threshold:
              q.append([i, j]); seeds[i, j] = 0; done[i, j] = 1; mask[i, j] = 1\<close>
\<close>

definition visit :: "int \<Rightarrow> int \<Rightarrow> real arr2 \<Rightarrow> real \<Rightarrow> pix \<Rightarrow> pix \<Rightarrow> grow_state \<Rightarrow> grow_state" where
  "visit height width current_depth depth_threshold ind p st =
     (case p of (i, j) \<Rightarrow>
        if - 1 < i \<and> i < height \<and> - 1 < j \<and> j < width then
          if \<not> gs_done st (i, j) = 1 \<and> \<not> current_depth (i, j) \<ge> 1 then
            if \<bar>current_depth (i, j) - current_depth ind\<bar> < depth_threshold then
              st\<lparr>queue := queue st @ [(i, j)],
                 gs_seeds := (gs_seeds st)((i, j) := 0),
                 gs_done := (gs_done st)((i, j) := 1),
                 gs_mask := (gs_mask st)((i, j) := 1)\<rparr>
            else st
          else st
        else st)"

definition expand :: "int \<Rightarrow> int \<Rightarrow> real arr2 \<Rightarrow> real \<Rightarrow> pix \<Rightarrow> grow_state \<Rightarrow> grow_state" where
  "expand height width current_depth depth_threshold ind st =
     fold (visit height width current_depth depth_threshold ind) (neighbourhood ind) st"

text \<open>The inner loop \<open>while q\<close> ends: a pixel enters the queue once, when it is marked
  done, so the pixels not yet done plus the length of the queue decrease with every pixel
  taken from the queue.\<close>

definition not_done :: "int \<Rightarrow> int \<Rightarrow> grow_state \<Rightarrow> pix set" where
  "not_done height width st = {p \<in> grid height width. gs_done st p \<noteq> 1}"

lemma finite_grid: "finite (grid height width)"
proof -
  have "grid height width \<subseteq> {0..<height} \<times> {0..<width}"
    by (auto simp: grid_def)
  then show ?thesis
    by (rule finite_subset) simp
qed

lemma finite_not_done: "finite (not_done height width st)"
  by (rule finite_subset[OF _ finite_grid[of height width]]) (auto simp: not_done_def)

lemma visit_measure:
  "card (not_done height width (visit height width d t ind p st)) + length (queue (visit height width d t ind p st))
     = card (not_done height width st) + length (queue st)"
proof (cases "visit height width d t ind p st = st")
  case True
  then show ?thesis by simp
next
  case False
  then have adm: "p \<in> grid height width" "gs_done st p \<noteq> 1"
    and v: "visit height width d t ind p st =
        st\<lparr>queue := queue st @ [p], gs_seeds := (gs_seeds st)(p := 0),
           gs_done := (gs_done st)(p := 1), gs_mask := (gs_mask st)(p := 1)\<rparr>"
    by (auto simp: visit_def grid_def split: prod.splits if_splits)
  have nd: "not_done height width (visit height width d t ind p st) = not_done height width st - {p}"
    unfolding v by (auto simp: not_done_def)
  have "p \<in> not_done height width st"
    using adm by (simp add: not_done_def)
  then have "card (not_done height width st - {p}) + 1 = card (not_done height width st)"
    using finite_not_done[of height width st]
    by (metis Suc_eq_plus1 card_Suc_Diff1)
  then show ?thesis
    unfolding nd by (simp add: v)
qed

lemma fold_visit_measure:
  "card (not_done height width (fold (visit height width d t ind) ps st))
     + length (queue (fold (visit height width d t ind) ps st))
   = card (not_done height width st) + length (queue st)"
  by (induction ps arbitrary: st) (simp_all add: visit_measure)

lemma expand_measure:
  "card (not_done height width (expand height width d t ind st)) + length (queue (expand height width d t ind st))
     = card (not_done height width st) + length (queue st)"
  by (simp add: expand_def fold_visit_measure)

function grow :: "int \<Rightarrow> int \<Rightarrow> real arr2 \<Rightarrow> real \<Rightarrow> grow_state \<Rightarrow> grow_state" where
  "grow height width current_depth depth_threshold st =
     (case queue st of
        [] \<Rightarrow> st
      | ind # rest \<Rightarrow>
          grow height width current_depth depth_threshold
            (expand height width current_depth depth_threshold ind (st\<lparr>queue := rest\<rparr>)))"
  by pat_completeness auto
termination
proof (relation "measure (\<lambda>(height, width, d, t, st). card (not_done height width st) + length (queue st))")
  show "wf (measure (\<lambda>(height, width, d, t, st). card (not_done height width st) + length (queue st)))"
    by simp
next
  fix height width :: int and current_depth :: "real arr2" and depth_threshold :: real
    and st :: grow_state and ind rest
  assume q: "queue st = ind # rest"
  have "not_done height width (st\<lparr>queue := rest\<rparr>) = not_done height width st"
    by (simp add: not_done_def)
  then show "((height, width, current_depth, depth_threshold,
            expand height width current_depth depth_threshold ind (st\<lparr>queue := rest\<rparr>)),
           (height, width, current_depth, depth_threshold, st))
          \<in> measure (\<lambda>(height, width, d, t, st). card (not_done height width st) + length (queue st))"
    using expand_measure[of height width current_depth depth_threshold ind "st\<lparr>queue := rest\<rparr>"] q
    by simp
qed

declare grow.simps [simp del]

text \<open>
  The outer loop, which need not end:
  \<^verbatim>\<open>while not np.sum(seeds) == 0:
      ind_i = math.floor(np.argmax(seeds) / current_depth.shape[1])
      ind_j = np.argmax(seeds) - ind_i * current_depth.shape[1]
      mask = np.zeros_like(current_depth)
      q.append([ind_i, ind_j]); seeds[ind_i, ind_j] = 0; done[ind_i, ind_j] = 1; mask[ind_i, ind_j] = 1
      while q: ...
      if np.sum(mask) > significant_number_of_points: masks.append(mask)
  return masks\<close>
\<close>

partial_function (option) region_growing_loop ::
  "int \<Rightarrow> int \<Rightarrow> real arr2 \<Rightarrow> real \<Rightarrow> real \<Rightarrow> real arr2 \<Rightarrow> real arr2 \<Rightarrow> real arr2 list
     \<Rightarrow> real arr2 list option" where
  "region_growing_loop height width current_depth depth_threshold significant_number_of_points
       seeds done' masks =
     (if sum_list (ravel height width seeds) = 0 then Some masks
      else
        (let k = int (argmax (ravel height width seeds));
             ind_i = k div width;
             ind_j = k - ind_i * width;
             st = grow height width current_depth depth_threshold
                    \<lparr>queue = [(ind_i, ind_j)],
                     gs_seeds = seeds((ind_i, ind_j) := 0),
                     gs_done = done'((ind_i, ind_j) := 1),
                     gs_mask = (\<lambda>p. 0)((ind_i, ind_j) := 1)\<rparr>
         in region_growing_loop height width current_depth depth_threshold
              significant_number_of_points (gs_seeds st) (gs_done st)
              (if sum_list (ravel height width (gs_mask st)) > significant_number_of_points
               then masks @ [gs_mask st] else masks)))"

declare region_growing_loop.simps [code]

text \<open>\<open>region_growing\<close> on arrays of shape \<open>height\<close> by \<open>width\<close>:
  \<open>seeds = movement_mask * current_depth\<close>, \<open>done = np.zeros_like(seeds)\<close>.\<close>

definition region_growing ::
  "int \<Rightarrow> int \<Rightarrow> real arr2 \<Rightarrow> real arr2 \<Rightarrow> real \<Rightarrow> real \<Rightarrow> real arr2 list option" where
  "region_growing height width movement_mask current_depth depth_threshold significant_number_of_points =
     region_growing_loop height width current_depth depth_threshold significant_number_of_points
       (\<lambda>p. movement_mask p * current_depth p) (\<lambda>p. 0) []"

section \<open>Specification-side notions and concrete inputs\<close>

text \<open>Reading a decimal numeral back, to tell the keys \<open>polyfit_model<i>\<close> apart.\<close>

definition nat_of_str :: "string \<Rightarrow> nat" where
  "nat_of_str s = foldl (\<lambda>a c. 10 * a + (of_char c - 48)) 0 s"

text \<open>
  What one degree contributes to the result of \<open>find_functions\<close>: nothing when its fitted
  trajectory contains a NaN or its error is not below the threshold, otherwise the entry with
  the coefficients, the error, the standard deviations and the covariance matrix of the fit.
\<close>

definition fit_candidate :: "polyfit \<Rightarrow> flt list \<Rightarrow> flt list \<Rightarrow> flt \<Rightarrow> nat \<Rightarrow> candidate option" where
  "fit_candidate polyfit t points threshold_accuracy i =
     (case polyfit t points i of
        Inl e \<Rightarrow> None
      | Inr (popt, pcov) \<Rightarrow>
          if (\<exists>v \<in> set (map (polyval popt) t). isnan v) then None
          else if fless (sum_of_the_squares_of_the_residuals points (map (polyval popt) t))
                    threshold_accuracy
          then Some \<lparr>function' = generate_poly_trajectory, function_params = popt,
                 error = sum_of_the_squares_of_the_residuals points (map (polyval popt) t),
                 standard_deviation = map fsqrt (diag pcov), covariance_matrix = pcov\<rparr>
          else None)"

definition candidates_of :: "polyfit \<Rightarrow> flt list \<Rightarrow> flt list \<Rightarrow> flt \<Rightarrow> nat list \<Rightarrow> found_functions" where
  "candidates_of polyfit t points threshold_accuracy degrees =
     List.map_filter (\<lambda>i. map_option (Pair (''polyfit_model'' @ str_nat i))
        (fit_candidate polyfit t points threshold_accuracy i)) degrees"

text \<open>
  Least squares on observations that are all zero: every degree is fitted by the zero
  polynomial, with zero covariance. Seventeen observations at the times 0, ..., 16.
\<close>

definition zero_polyfit :: polyfit where
  "zero_polyfit t points n =
     Inr (replicate (Suc n) (Num 0), replicate (Suc n) (replicate (Suc n) (Num 0)))"

definition times17 :: "flt list" where
  "times17 = map (\<lambda>k. Num (real k)) [0..<17]"

definition zeros17 :: "flt list" where
  "zeros17 = replicate 17 (Num 0)"


text \<open>A candidate that fits exactly (zero standard deviation), and one whose covariance
  diagonal is negative, so that \<open>np.sqrt\<close> leaves a NaN standard deviation.\<close>

definition exact_constant_fit :: candidate where
  "exact_constant_fit = \<lparr>function' = generate_poly_trajectory, function_params = [Num 1],
     error = Num 0, standard_deviation = [Num 0], covariance_matrix = [[Num 0]]\<rparr>"

definition nan_sd_fit :: candidate where
  "nan_sd_fit = \<lparr>function' = generate_poly_trajectory, function_params = [Num 1],
     error = Num 0, standard_deviation = [NaN], covariance_matrix = [[Num (-1)]]\<rparr>"

definition half_sd_fit :: candidate where
  "half_sd_fit = \<lparr>function' = generate_poly_trajectory, function_params = [Num 1],
     error = Num 0, standard_deviation = [Num (1/2)], covariance_matrix = [[Num (1/4)]]\<rparr>"

text \<open>A mixture of two components with different means, for the update of \<open>RGB_MoG\<close>.\<close>

definition two_component_mixture :: "npfloat Gaussian" where
  "two_component_mixture =
     \<lparr>index = (0, 0), luminance_mean = [],
      color_mean = [[Finite 0, Finite 0, Finite 0], [Finite 3, Finite 0, Finite 0]], depth_mean = [],
      luminance_variance = [], color_variance = [Finite 1, Finite 1], depth_variance = [],
      weight = [Finite (1/2), Finite (1/2)], ranking = [0, 1], depth_observations = []\<rparr>"

text \<open>A mixture of one component at the colour black, and that colour.\<close>

definition one_component_mixture :: "npfloat Gaussian" where
  "one_component_mixture =
     \<lparr>index = (0, 0), luminance_mean = [],
      color_mean = [[Finite 0, Finite 0, Finite 0]], depth_mean = [],
      luminance_variance = [], color_variance = [Finite 1], depth_variance = [],
      weight = [Finite 1], ranking = [0], depth_observations = []\<rparr>"

definition black :: "npfloat list" where
  "black = [Finite 0, Finite 0, Finite 0]"


text \<open>
  A frame of one pixel, dark grey at depth 1/2, followed by the same pixel turned black,
  and the two detectors constructed from the first frame with the default parameters.
\<close>

definition frame1_rgb :: "rgb arr2" where
  "frame1_rgb = (\<lambda>p. (10, 10, 10))"

definition frame2_rgb :: "rgb arr2" where
  "frame2_rgb = (\<lambda>p. (0, 0, 0))"

definition frame_depth :: "real arr2" where
  "frame_depth = (\<lambda>p. 1/2)"

definition rgbd0 :: rgbd_mog where
  "rgbd0 = rgbd_mog_init 1 1 frame1_rgb frame_depth 3 0.025 0.2 2.5 16 0.01 0.4"

definition fast0 :: fast_rgbd_mog where
  "fast0 = fast_rgbd_mog_init 1 1 frame1_rgb frame_depth 3 0.025 0.2 2.5 16 0.01 0.4 1"




text \<open>The seeds still to be consumed, and a seed mask of one flagged pixel.\<close>

definition nonzero_seeds :: "int \<Rightarrow> int \<Rightarrow> real arr2 \<Rightarrow> pix set" where
  "nonzero_seeds height width seeds = {p \<in> grid height width. seeds p \<noteq> 0}"

definition corner_mask :: "real arr2" where
  "corner_mask = (\<lambda>p. if p = (0, 0) then 1 else 0)"

definition flat_depth :: "real arr2" where
  "flat_depth = (\<lambda>p. 1/2)"

section \<open>Theorems\<close>

subsection \<open>Radius queries\<close>

lemma norm3_vabs: "norm3 (vabs v) = norm3 v"
  by (cases v) simp

lemma filter_zip_index:
  "map snd (filter (\<lambda>(d, r). P d) (zip (map f xs) xs)) =
   map (\<lambda>i. xs ! i) (filter (\<lambda>i. P (map f xs ! i)) [0..<length xs])"
proof (induction xs rule: rev_induct)
  case Nil
  show ?case by simp
next
  case (snoc x xs)
  have "filter (\<lambda>i. P (map f (xs @ [x]) ! i)) [0..<length xs] =
        filter (\<lambda>i. P (map f xs ! i)) [0..<length xs]"
    by (rule filter_cong) (auto simp: nth_append)
  moreover have "map (\<lambda>i. (xs @ [x]) ! i) (filter (\<lambda>i. P (map f xs ! i)) [0..<length xs]) =
        map (\<lambda>i. xs ! i) (filter (\<lambda>i. P (map f xs ! i)) [0..<length xs])"
    by (rule map_cong) (auto simp: nth_append)
  ultimately show ?case
    using snoc by (simp add: nth_append)
qed

text \<open>
  What the function computes: the indices returned are exactly those, in increasing order,
  of the points whose Euclidean distance to the center is less than the radius (the absolute
  values do not change a norm); the vector returned with each is the componentwise absolute
  value of point minus center.
\<close>

lemma find_points_in_radius_abs:
  "fst (find_points_in_radius points center radius) =
     filter (\<lambda>i. euclidean_distance (points ! i) center < radius) [0..<length points]
   \<and> snd (find_points_in_radius points center radius) =
     map (\<lambda>i. vabs (vsub (points ! i) center)) (fst (find_points_in_radius points center radius))"
proof -
  let ?radii = "map (\<lambda>p. vabs (vsub p center)) points"
  have idx: "filter (\<lambda>i. map norm3 ?radii ! i < radius) [0..<length points] =
             filter (\<lambda>i. euclidean_distance (points ! i) center < radius) [0..<length points]"
    by (rule filter_cong) (auto simp: euclidean_distance_def norm3_vabs)
  have "map snd (filter (\<lambda>(d, r). d < radius) (zip (map norm3 ?radii) ?radii)) =
        map (\<lambda>i. ?radii ! i) (filter (\<lambda>i. map norm3 ?radii ! i < radius) [0..<length ?radii])"
    by (rule filter_zip_index)
  also have "\<dots> = map (\<lambda>i. vabs (vsub (points ! i) center))
                     (filter (\<lambda>i. map norm3 ?radii ! i < radius) [0..<length points])"
    by (rule map_cong) auto
  finally show ?thesis
    using idx by (simp add: find_points_in_radius_def Let_def)
qed

text \<open>
  C5 (the code departs from the claim). The point \<open>(0,0,0)\<close> lies within radius 2 of the
  center \<open>(1,0,0)\<close>; the radius vector returned for it is \<open>(1,0,0)\<close>, where point minus
  center is \<open>(-1,0,0)\<close>. The sign is lost to \<open>np.abs\<close>, which the distance does not need, and
  the velocity that an angular velocity \<open>(0,0,1)\<close> induces at that radius comes out as
  \<open>(0,1,0)\<close> instead of \<open>(0,-1,0)\<close>.
\<close>

theorem find_points_in_radius_drops_sign:
  "find_points_in_radius [(0, 0, 0)] (1, 0, 0) 2 = ([0], [(1, 0, 0)])
   \<and> vsub (0, 0, 0) (1, 0, 0) = (-1, 0, 0)
   \<and> snd (find_points_in_radius [(0, 0, 0)] (1, 0, 0) 2) \<noteq> [vsub (0, 0, 0) (1, 0, 0)]
   \<and> cross3 (0, 0, 1) (hd (snd (find_points_in_radius [(0, 0, 0)] (1, 0, 0) 2))) = (0, 1, 0)
   \<and> cross3 (0, 0, 1) (vsub (0, 0, 0) (1, 0, 0)) = (0, -1, 0)"
  by (simp add: find_points_in_radius_def)

subsection \<open>Trajectory fitting\<close>

lemma nat_of_str_str_nat: "nat_of_str (str_nat n) = n"
proof (induction n rule: str_nat.induct)
  case (1 n)
  show ?case
  proof (cases "n < 10")
    case True
    then show ?thesis
      by (subst str_nat.simps) (simp add: nat_of_str_def)
  next
    case False
    have "n mod 10 < 10" by simp
    then have "of_char (char_of (48 + n mod 10)) = 48 + n mod 10"
      by (simp add: mod_if)
    then show ?thesis
      using False 1
      by (subst str_nat.simps) (simp add: nat_of_str_def)
  qed
qed

lemma str_nat_inj: "str_nat i = str_nat j \<Longrightarrow> i = j"
  by (metis nat_of_str_str_nat)

lemma update_fresh: "k \<notin> fst ` set al \<Longrightarrow> AList.update k v al = al @ [(k, v)]"
  by (induction al) auto

lemma keys_candidates_of:
  "fst ` set (candidates_of polyfit t points thr ds) \<subseteq> (\<lambda>i. ''polyfit_model'' @ str_nat i) ` set ds"
  by (auto simp: candidates_of_def List.map_filter_def)

lemma filter_isnan_pos: "0 < length (filter isnan ys) \<longleftrightarrow> (\<exists>v \<in> set ys. isnan v)"
  by (simp add: filter_empty_conv)

lemma find_functions_loop_eq:
  assumes "\<forall>i \<in> set ds. \<exists>r. polyfit t points i = Inr r"
    and "distinct ds"
    and "\<forall>i \<in> set ds. ''polyfit_model'' @ str_nat i \<notin> fst ` set found"
  shows "find_functions_loop polyfit t points thr ds found =
         Inr (found @ candidates_of polyfit t points thr ds)"
  using assms
proof (induction ds arbitrary: found)
  case Nil
  show ?case by (simp add: candidates_of_def List.map_filter_def)
next
  case (Cons i ds)
  obtain popt pcov where fit: "polyfit t points i = Inr (popt, pcov)"
    using Cons.prems(1) by fastforce
  let ?k = "''polyfit_model'' @ str_nat i"
  have fresh: "?k \<notin> fst ` set found"
    using Cons.prems(3) by simp
  have rest_fit: "\<forall>j \<in> set ds. \<exists>r. polyfit t points j = Inr r"
    using Cons.prems(1) by simp
  have dist: "distinct ds" and notin: "i \<notin> set ds"
    using Cons.prems(2) by simp_all
  have split: "candidates_of polyfit t points thr (i # ds) =
      (case fit_candidate polyfit t points thr i of None \<Rightarrow> [] | Some c \<Rightarrow> [(?k, c)])
      @ candidates_of polyfit t points thr ds"
    by (simp add: candidates_of_def List.map_filter_def split: option.splits)
  show ?case
  proof (cases "fit_candidate polyfit t points thr i")
    case None
    have "find_functions_loop polyfit t points thr (i # ds) found =
          find_functions_loop polyfit t points thr ds found"
      using None fit
      by (auto simp: fit_candidate_def trajectory_poly_fitting_def generate_poly_trajectory_def
          filter_isnan_pos filter_empty_conv Let_def split: if_splits)
    also have "\<dots> = Inr (found @ candidates_of polyfit t points thr ds)"
      using Cons.IH[OF rest_fit dist] Cons.prems(3) by simp
    finally show ?thesis
      using None split by simp
  next
    case (Some c)
    have "find_functions_loop polyfit t points thr (i # ds) found =
          find_functions_loop polyfit t points thr ds (AList.update ?k c found)"
      using Some fit
      by (auto simp: fit_candidate_def trajectory_poly_fitting_def generate_poly_trajectory_def
          filter_isnan_pos filter_empty_conv Let_def split: if_splits)
    also have "\<dots> = find_functions_loop polyfit t points thr ds (found @ [(?k, c)])"
      using fresh by (simp add: update_fresh)
    also have "\<dots> = Inr ((found @ [(?k, c)]) @ candidates_of polyfit t points thr ds)"
    proof (rule Cons.IH[OF rest_fit dist])
      show "\<forall>j\<in>set ds. ''polyfit_model'' @ str_nat j \<notin> fst ` set (found @ [(?k, c)])"
        using Cons.prems(3) notin by (auto dest: str_nat_inj)
    qed
    finally show ?thesis
      using Some split by simp
  qed
qed

lemma polyval_zero: "polyval (replicate n (Num 0)) (Num x) = Num 0"
  by (induction n) (simp_all add: polyval_def)

lemma fsum_zero: "fsum (replicate n (Num 0)) = Num 0"
  by (induction n) (simp_all add: fsum_def)

lemma residuals_zero:
  "sum_of_the_squares_of_the_residuals (replicate n (Num 0)) (replicate n (Num 0)) = Num 0"
proof -
  have "map (\<lambda>(a, b). fmul (fsub a b) (fsub a b)) (zip (replicate n (Num 0)) (replicate n (Num 0)))
        = replicate n (Num 0)"
    by (induction n) simp_all
  then show ?thesis
    by (simp add: sum_of_the_squares_of_the_residuals_def fsum_zero)
qed

lemma zero_fit_candidate:
  "fit_candidate zero_polyfit times17 zeros17 (Num (1/10)) i =
     Some \<lparr>function' = generate_poly_trajectory, function_params = replicate (Suc i) (Num 0),
        error = Num 0, standard_deviation = map fsqrt (diag (replicate (Suc i) (replicate (Suc i) (Num 0)))),
        covariance_matrix = replicate (Suc i) (replicate (Suc i) (Num 0))\<rparr>"
proof -
  have traj: "map (polyval (replicate (Suc i) (Num 0))) times17 = replicate 17 (Num 0)"
    unfolding times17_def map_map comp_def polyval_zero
    by (simp add: map_replicate_const)
  have nonan: "\<not> (\<exists>v \<in> set (map (polyval (replicate (Suc i) (Num 0))) times17). isnan v)"
    unfolding traj by simp
  show ?thesis
    unfolding fit_candidate_def zero_polyfit_def
    using nonan
    by (simp only: sum.case prod.case if_False traj zeros17_def residuals_zero) simp
qed

text \<open>
  C2 (as amended). For every time series of n observed points on which the least-squares
  solver returns, \<open>find_functions\<close> fits every polynomial degree from 0 up to but not
  including min(n-1, 15) (so none when n is at most 1), discards any degree whose fitted
  trajectory contains a NaN, and returns as candidates exactly the remaining degrees whose
  sum-of-squared-residuals error is below the threshold, in increasing order of degree, each
  carrying coefficients, covariance matrix, derived standard deviations and the error.
\<close>

theorem find_functions_degrees:
  assumes "\<forall>i < nat (min (int (length points) - 1) 15). \<exists>r. polyfit t points i = Inr r"
  shows "\<exists>out. find_functions polyfit t points thr =
           Inr (candidates_of polyfit t points thr [0..<nat (min (int (length points) - 1) 15)], out)"
proof -
  have m: "max_poly points = min (int (length points) - 1) 15"
    by (simp add: max_poly_def min_def)
  have "find_functions_loop polyfit t points thr [0..<nat (max_poly points)] [] =
        Inr ([] @ candidates_of polyfit t points thr [0..<nat (max_poly points)])"
    by (rule find_functions_loop_eq) (use assms m in auto)
  then show ?thesis
    by (simp add: find_functions_def m)
qed

theorem find_functions_degrees_witness:
  "\<exists>out. find_functions zero_polyfit times17 zeros17 (Num (1/10)) =
     Inr (candidates_of zero_polyfit times17 zeros17 (Num (1/10)) [0..<15], out)"
proof -
  have "\<forall>i < nat (min (int (length zeros17) - 1) 15). \<exists>r. zero_polyfit times17 zeros17 i = Inr r"
    by (simp add: zero_polyfit_def)
  from find_functions_degrees [of zeros17 zero_polyfit times17 "Num (1/10)", OF this] show ?thesis
    by (simp add: zeros17_def)
qed

text \<open>
  C2 (as stated) fails: with 17 observations that are all zero, min(n-1, 15) is 15 and the
  fit of degree 15 has no NaN and error 0, yet the result holds the degrees 0 to 14 only.
\<close>

theorem find_functions_counterexample:
  "(case find_functions zero_polyfit times17 zeros17 (Num (1/10)) of
      Inl e \<Rightarrow> False
    | Inr (found, out) \<Rightarrow> ''polyfit_model15'' \<notin> fst ` set found
        \<and> map fst found = map (\<lambda>i. ''polyfit_model'' @ str_nat i) [0..<15])
   \<and> min (int (length zeros17) - 1) 15 = 15
   \<and> fit_candidate zero_polyfit times17 zeros17 (Num (1/10)) 15 \<noteq> None"
proof -
  have len: "max_poly zeros17 = 15"
    by (simp add: max_poly_def zeros17_def)
  have loop: "find_functions_loop zero_polyfit times17 zeros17 (Num (1/10)) [0..<15] [] =
        Inr ([] @ candidates_of zero_polyfit times17 zeros17 (Num (1/10)) [0..<15])"
    by (rule find_functions_loop_eq) (simp_all add: zero_polyfit_def)
  have keys: "map fst (candidates_of zero_polyfit times17 zeros17 (Num (1/10)) [0..<15]) =
      map (\<lambda>i. ''polyfit_model'' @ str_nat i) [0..<15]"
    unfolding candidates_of_def List.map_filter_def
    by (simp add: zero_fit_candidate comp_def del: replicate_Suc upt_Suc)
  have "str_nat 15 = ''15''"
    by (simp add: str_nat.simps char_of_eq_iff)
  then have k15: "''polyfit_model15'' = ''polyfit_model'' @ str_nat 15"
    by simp
  have "''polyfit_model15'' \<notin> set (map (\<lambda>i. ''polyfit_model'' @ str_nat i) [0..<15])"
    unfolding k15 by (auto dest: str_nat_inj)
  then have notin: "''polyfit_model15'' \<notin> fst ` set (candidates_of zero_polyfit times17 zeros17 (Num (1/10)) [0..<15])"
    unfolding image_set keys .
  have m15: "min (int (length zeros17) - 1) 15 = 15"
    by (simp add: zeros17_def)
  have fc: "fit_candidate zero_polyfit times17 zeros17 (Num (1/10)) 15 \<noteq> None"
    by (simp only: zero_fit_candidate) simp
  obtain out where ff: "find_functions zero_polyfit times17 zeros17 (Num (1/10)) =
      Inr (candidates_of zero_polyfit times17 zeros17 (Num (1/10)) [0..<15], out)"
    unfolding find_functions_def len using loop by simp
  show ?thesis
    unfolding ff using notin keys m15 fc by simp
qed




subsection \<open>Evaluating candidates\<close>

lemma floor_sd_ge: "\<exists>r. floor_sd thr x = Num r \<and> thr \<le> r"
  by (cases x) (auto simp: floor_sd_def)

lemma sub_pm: "sublist ''polyfit_model'' (''polyfit_model'' @ s)"
  by (rule sublist_append_rightI)

lemma ex1_eval:
  "probability_of_being_in_point_params [(''polyfit_model0'', exact_constant_fit)] (Num 0) (1/10) =
     Inr (([[Num 1]], [[Num (1/10)]], [1]), [(''polyfit_model0'', exact_constant_fit)])"
  using sub_pm[of "''0''"]
  by (simp add: probability_of_being_in_point_params_def get_gaussian_params_def
      get_future_points_def future_points_of_def inplace_def exact_constant_fit_def
      generate_poly_trajectory_def polyval_def abs_diff_def floor_sd_def)

text \<open>
  C7 (as amended). For every candidate set, time t and grid step, every per-candidate
  standard deviation that \<open>probability_of_being_in_point\<close> obtains from
  \<open>get_gaussian_params\<close> is a number (never NaN) and at least the grid step, which the
  call passes as the floor: a smaller worst-case deviation is raised to the step.
\<close>

theorem get_gaussian_params_floor:
  assumes "probability_of_being_in_point_params found t step = Inr ((mean, sd, w), found')"
  shows "\<forall>row \<in> set sd. \<forall>x \<in> set row. \<exists>r. x = Num r \<and> step \<le> r"
  using assms floor_sd_ge
  by (auto simp: probability_of_being_in_point_params_def get_gaussian_params_def Let_def
      split: sum.splits prod.splits)

theorem get_gaussian_params_floor_witness:
  "(case probability_of_being_in_point_params [(''polyfit_model0'', exact_constant_fit)] (Num 0) (1/10) of
      Inl e \<Rightarrow> False
    | Inr ((mean, sd, w), found') \<Rightarrow> list_all (list_all (\<lambda>x. \<exists>r. x = Num r \<and> 1/10 \<le> r)) sd)"
  using get_gaussian_params_floor [OF ex1_eval]
  by (simp add: ex1_eval)

text \<open>
  C7 (as stated) fails: with the default step 0.1 and a candidate that fits exactly, the
  standard deviation obtained is 0.1, below 0.2.
\<close>

theorem get_gaussian_params_counterexample:
  "(case probability_of_being_in_point_params [(''polyfit_model0'', exact_constant_fit)] (Num 0) (1/10) of
      Inl e \<Rightarrow> False
    | Inr ((mean, sd, w), found') \<Rightarrow> sd = [[Num (1/10)]])
   \<and> \<not> (2/10 \<le> (1/10 :: real))"
  by (simp add: ex1_eval)

text \<open>
  C3 (the code departs from the claim). \<open>get_future_points\<close> adds the standard deviations
  into the stored coefficient array itself: called with \<open>'up'\<close> on coefficients \<open>[1]\<close> with
  standard deviation \<open>[1/2]\<close> it leaves \<open>[3/2]\<close> in the dictionary. The later call with
  \<open>'down'\<close> subtracts them again, which does not restore a coefficient whose standard deviation
  is NaN: after \<open>show_found_functions_with_deviation\<close> the coefficients \<open>[1]\<close> have become
  \<open>[NaN]\<close>.
\<close>

theorem show_found_functions_changes_params:
  "get_future_points [(''polyfit_model0'', half_sd_fit)] [Num 0] ''up'' =
     Inr ([[Num (3/2)]], [(''polyfit_model0'', half_sd_fit\<lparr>function_params := [Num (3/2)]\<rparr>)])
   \<and> show_found_functions_with_deviation [(''polyfit_model0'', nan_sd_fit)] [Num 0] =
     Inr (([[Num 1]], [[NaN]], [[NaN]]),
          [(''polyfit_model0'', nan_sd_fit\<lparr>function_params := [NaN]\<rparr>)])
   \<and> function_params nan_sd_fit = [Num 1]"
  using sub_pm[of "''0''"]
  by (simp add: show_found_functions_with_deviation_def
      get_future_points_def future_points_of_def inplace_def nan_sd_fit_def half_sd_fit_def
      generate_poly_trajectory_def polyval_def)

subsection \<open>RGB mixture of Gaussians: the update\<close>

text \<open>
  C4 (as amended). In \<open>RGB_MoG\<close>'s per-pixel update, a matching component gets the weight
  \<open>(1 - alfa) * weight + alfa\<close>, the variance
  \<open>sqrt((1 - ro) * variance^2 + ro * squaredError)\<close> with \<open>ro = alfa * density\<close> (the squared
  error summed over all components of the pixel; not-a-number when the argument of the root
  is negative) and the mean \<open>(1 - ro) * mean + ro * colour\<close>; every non-matching component,
  whether or not another component of the pixel matches, gets the weight
  \<open>(1 - alfa) * weight\<close>, the variance 4 and the current colour as its mean.
\<close>

theorem rgb_update_components:
  assumes "length matching_criterion = n" and "length probability = n"
    and "length (weight gauss) = n" and "length (color_variance gauss) = n"
    and "i < n"
  shows "(matching_criterion ! i \<longrightarrow>
            weight (rgb_update n alfa pixel gauss matching_criterion probability) ! i =
              xadd (xmul (Finite (1 - alfa)) (weight gauss ! i)) (Finite alfa)
          \<and> color_variance (rgb_update n alfa pixel gauss matching_criterion probability) ! i =
              xsqrt (xadd (xmul (xsub (Finite 1) (xmul (Finite alfa) (probability ! i)))
                             (xmul (color_variance gauss ! i) (color_variance gauss ! i)))
                       (xmul (xmul (Finite alfa) (probability ! i))
                             (xsum (map (xsquared_error pixel) (color_mean gauss)))))
          \<and> color_mean (rgb_update n alfa pixel gauss matching_criterion probability) ! i =
              map (\<lambda>(m, c). xadd (xmul (xsub (Finite 1) (xmul (Finite alfa) (probability ! i))) m)
                                (xmul (xmul (Finite alfa) (probability ! i)) c))
                (zip (color_mean gauss ! i) pixel))
       \<and> (matching_criterion ! i \<and> weight gauss ! i = Finite w \<and> probability ! i = Finite p
            \<and> color_variance gauss ! i = Finite v
            \<and> xsum (map (xsquared_error pixel) (color_mean gauss)) = Finite e \<longrightarrow>
            weight (rgb_update n alfa pixel gauss matching_criterion probability) ! i =
              Finite ((1 - alfa) * w + alfa)
          \<and> color_variance (rgb_update n alfa pixel gauss matching_criterion probability) ! i =
              (if (1 - alfa * p) * v\<^sup>2 + alfa * p * e < 0 then NotANumber
               else Finite (sqrt ((1 - alfa * p) * v\<^sup>2 + alfa * p * e))))
       \<and> (\<not> matching_criterion ! i \<longrightarrow>
            weight (rgb_update n alfa pixel gauss matching_criterion probability) ! i =
              xmul (Finite (1 - alfa)) (weight gauss ! i)
          \<and> color_variance (rgb_update n alfa pixel gauss matching_criterion probability) ! i = Finite 4
          \<and> color_mean (rgb_update n alfa pixel gauss matching_criterion probability) ! i = pixel)"
proof -
  have mem: "matching_criterion ! i \<Longrightarrow> True \<in> set matching_criterion"
    using assms(1,5) by (metis nth_mem)
  have general: "matching_criterion ! i \<Longrightarrow>
      weight (rgb_update n alfa pixel gauss matching_criterion probability) ! i =
        xadd (xmul (Finite (1 - alfa)) (weight gauss ! i)) (Finite alfa)
      \<and> color_variance (rgb_update n alfa pixel gauss matching_criterion probability) ! i =
        xsqrt (xadd (xmul (xsub (Finite 1) (xmul (Finite alfa) (probability ! i)))
                       (xmul (color_variance gauss ! i) (color_variance gauss ! i)))
                 (xmul (xmul (Finite alfa) (probability ! i))
                       (xsum (map (xsquared_error pixel) (color_mean gauss)))))
      \<and> color_mean (rgb_update n alfa pixel gauss matching_criterion probability) ! i =
        map (\<lambda>(m, c). xadd (xmul (xsub (Finite 1) (xmul (Finite alfa) (probability ! i))) m)
                          (xmul (xmul (Finite alfa) (probability ! i)) c))
          (zip (color_mean gauss ! i) pixel)"
    using assms mem by (simp add: rgb_update_def Let_def nth_append)
  have other: "\<not> matching_criterion ! i \<Longrightarrow>
      weight (rgb_update n alfa pixel gauss matching_criterion probability) ! i =
        xmul (Finite (1 - alfa)) (weight gauss ! i)
      \<and> color_variance (rgb_update n alfa pixel gauss matching_criterion probability) ! i = Finite 4
      \<and> color_mean (rgb_update n alfa pixel gauss matching_criterion probability) ! i = pixel"
    using assms by (simp add: rgb_update_def Let_def nth_append)
  have finite: "matching_criterion ! i \<Longrightarrow> weight gauss ! i = Finite w \<Longrightarrow> probability ! i = Finite p
      \<Longrightarrow> color_variance gauss ! i = Finite v
      \<Longrightarrow> xsum (map (xsquared_error pixel) (color_mean gauss)) = Finite e \<Longrightarrow>
      weight (rgb_update n alfa pixel gauss matching_criterion probability) ! i =
        Finite ((1 - alfa) * w + alfa)
      \<and> color_variance (rgb_update n alfa pixel gauss matching_criterion probability) ! i =
        (if (1 - alfa * p) * v\<^sup>2 + alfa * p * e < 0 then NotANumber
         else Finite (sqrt ((1 - alfa * p) * v\<^sup>2 + alfa * p * e)))"
    using general by (simp add: xsub_def power2_eq_square)
  show ?thesis
    using general other finite by blast
qed

theorem rgb_update_components_witness:
  "weight (rgb_update 2 (1/40) black two_component_mixture [True, False] [Finite 1, Finite 0]) ! 0
     = Finite (41/80)
   \<and> weight (rgb_update 2 (1/40) black two_component_mixture [True, False] [Finite 1, Finite 0]) ! 1
     = Finite (39/80)
   \<and> color_variance (rgb_update 2 (1/40) black two_component_mixture [True, False] [Finite 1, Finite 0]) ! 1
     = Finite 4
   \<and> color_mean (rgb_update 2 (1/40) black two_component_mixture [True, False] [Finite 1, Finite 0]) ! 1
     = black
   \<and> color_variance (rgb_update 1 (1/40) black one_component_mixture [True] [Finite 80]) ! 0
     = NotANumber"
proof -
  have len2: "length [True, False] = 2" "length [Finite 1, Finite 0] = 2"
    "length (weight two_component_mixture) = 2" "length (color_variance two_component_mixture) = 2"
    by (simp_all add: two_component_mixture_def)
  have len1: "length [True] = 1" "length [Finite 80] = 1"
    "length (weight one_component_mixture) = 1" "length (color_variance one_component_mixture) = 1"
    by (simp_all add: one_component_mixture_def)
  have w: "weight two_component_mixture = [Finite (1/2), Finite (1/2)]"
    by (simp add: two_component_mixture_def)
  have e: "xsum (map (xsquared_error black) (color_mean one_component_mixture)) = Finite 0"
    "weight one_component_mixture ! 0 = Finite 1" "color_variance one_component_mixture ! 0 = Finite 1"
    by (simp_all add: one_component_mixture_def black_def xsum_def xsquared_error_def xsub_def)
  have a: "weight (rgb_update 2 (1/40) black two_component_mixture [True, False] [Finite 1, Finite 0]) ! 0
     = Finite (41/80)"
    using rgb_update_components [OF len2, of 0 "1/40" black]
    by (simp add: w)
  have b: "weight (rgb_update 2 (1/40) black two_component_mixture [True, False] [Finite 1, Finite 0]) ! 1
     = Finite (39/80)
   \<and> color_variance (rgb_update 2 (1/40) black two_component_mixture [True, False] [Finite 1, Finite 0]) ! 1
     = Finite 4
   \<and> color_mean (rgb_update 2 (1/40) black two_component_mixture [True, False] [Finite 1, Finite 0]) ! 1
     = black"
    using rgb_update_components [OF len2, of 1 "1/40" black]
    by (simp add: w)
  have c: "color_variance (rgb_update 1 (1/40) black one_component_mixture [True] [Finite 80]) ! 0
     = NotANumber"
    using rgb_update_components [OF len1, of 0 "1/40" black 1 80 1 0]
    by (simp add: e xsub_def)
  show ?thesis
    using a b c by simp
qed

lemma sqrt9: "sqrt 9 = 3"
  using real_sqrt_abs[of 3] by simp

text \<open>
  C4 (as stated) fails: for the colour black and a pixel whose first component (mean
  \<open>[0,0,0]\<close>) matches and whose second (mean \<open>[3,0,0]\<close>, variance 1) does not, the update
  sets the second component's variance to 4 and its mean to \<open>[0,0,0]\<close>.
\<close>

theorem rgb_update_counterexample:
  "fst (rgb_probability black two_component_mixture) = [True, False]
   \<and> color_variance two_component_mixture ! 1 = Finite 1
   \<and> color_mean two_component_mixture ! 1 = [Finite 3, Finite 0, Finite 0]
   \<and> color_variance (rgb_update 2 (1/40) black two_component_mixture
        (fst (rgb_probability black two_component_mixture))
        (snd (rgb_probability black two_component_mixture))) ! 1 = Finite 4
   \<and> color_mean (rgb_update 2 (1/40) black two_component_mixture
        (fst (rgb_probability black two_component_mixture))
        (snd (rgb_probability black two_component_mixture))) ! 1 = [Finite 0, Finite 0, Finite 0]"
proof -
  have m: "fst (rgb_probability black two_component_mixture) = [True, False]"
    by (simp add: rgb_probability_def two_component_mixture_def black_def xsquared_error_def
        xsum_def xsub_def sqrt9)
  obtain p0 p1 where p: "snd (rgb_probability black two_component_mixture) = [p0, p1]"
    by (simp add: rgb_probability_def two_component_mixture_def)
  show ?thesis
    unfolding m p
    by (simp add: rgb_update_def two_component_mixture_def black_def Let_def numeral_2_eq_2)
qed

subsection \<open>RGBD mixture of Gaussians and its fast variant\<close>

text \<open>
  C1 (the code departs from the claim). Both detectors are constructed from the one-pixel
  frame of colour \<open>(10,10,10)\<close> and depth 1/2 and then classify the frame of colour \<open>(0,0,0)\<close>
  at the same depth. In \<open>RGBD_MoG\<close> no component matches (the luminance moved by 10, and
  \<open>(0 - 10)^2 = 100\<close> is not below \<open>2.5^2\<close>) and the pixel is foreground, 255. In
  \<open>Fast_RGBD_MoG\<close> every component matches (its luminance test computes \<open>0 - 10^2 = -100\<close>)
  and the pixel is background, 0.
\<close>

theorem fast_rgbd_mog_mask_differs:
  "map_option (map_sum id (\<lambda>s. rd_mask s (0, 0))) (rgbd_set_mask frame2_rgb frame_depth rgbd0)
     = Some (Inr 255)
   \<and> reshape 1 (snd (fast_get_mask frame2_rgb frame_depth fast0)) (0, 0) = 0
   \<and> rgbd_matching
         (rgbd0\<lparr>rd_current_yuv := (\<lambda>p. RGB_to_YUV (frame2_rgb p)), rd_current_depth := frame_depth\<rparr>)
         (rgbd_set_ranking (hd (rd_gaussians rgbd0))) = [False, False, False]
   \<and> fast_get_matching_criterion
         (fast0\<lparr>fm_current_yuv := flatten_yuv 1 1 frame2_rgb,
                fm_current_depth := flatten_depth 1 1 frame_depth\<rparr>) = [[True, True, True]]"
  by code_simp

subsection \<open>The values of the masks\<close>





















lemma rgb_mog_init_index: "map index (rm_gaussians (rgb_mog_init h w im n a)) = pixels h w"
  by (simp add: rgb_mog_init_def comp_def)

lemma rgbd_mog_init_index:
  "map index (rd_gaussians (rgbd_mog_init h w im dep n a ro b l dt rt)) = pixels h w"
  by (simp add: rgbd_mog_init_def comp_def)

lemma set_pixels: "set (pixels h w) = {(i, j). 0 \<le> i \<and> i < h \<and> 0 \<le> j \<and> j < w}"
  by (auto simp: pixels_def)









subsection \<open>Region growing: termination\<close>

lemma amax_Max: "xs \<noteq> [] \<Longrightarrow> amax xs = Max (set xs)"
proof (cases xs)
  case Nil
  assume "xs \<noteq> []"
  with Nil show ?thesis by simp
next
  case (Cons a list)
  have "Max (set (a # list)) = fold max list a"
    by (rule Max.set_eq_fold)
  then show ?thesis
    by (simp add: amax_def Cons)
qed

lemma argmax_less: "xs \<noteq> [] \<Longrightarrow> argmax xs < length xs"
proof -
  assume ne: "xs \<noteq> []"
  then have "amax xs \<in> set xs"
    using amax_Max[OF ne] Max_in[of "set xs"] by simp
  then have "\<exists>x \<in> set xs. \<not> x \<noteq> amax xs" by blast
  then have "takeWhile (\<lambda>x. x \<noteq> amax xs) xs \<noteq> xs"
    by (metis (mono_tags, lifting) takeWhile_eq_all_conv)
  then show ?thesis
    unfolding argmax_def
    by (metis length_takeWhile_le le_neq_implies_less takeWhile_eq_take take_all_iff order_refl)
qed

lemma nth_argmax: "xs \<noteq> [] \<Longrightarrow> xs ! argmax xs = amax xs"
  using argmax_less[of xs] nth_length_takeWhile[of "\<lambda>x. x \<noteq> amax xs" xs]
  by (simp add: argmax_def)

lemma amax_pos:
  assumes "\<forall>x \<in> set xs. 0 \<le> x" and "sum_list xs \<noteq> 0"
  shows "xs \<noteq> [] \<and> 0 < amax xs"
proof -
  have ne: "xs \<noteq> []" using assms(2) by auto
  obtain x where x: "x \<in> set xs" "x \<noteq> 0"
    using assms sum_list_nonneg_eq_0_iff[of xs] by auto
  then have "0 < x" using assms(1) by force
  moreover have "x \<le> Max (set xs)" using x(1) by simp
  ultimately show ?thesis using ne amax_Max[OF ne] by simp
qed

lemma ravel_index_in_grid:
  assumes "k < nat height * nat width"
  shows "(int k div width, int k mod width) \<in> grid height width"
proof -
  have w: "0 < width" and h: "0 < height"
    using assms by (cases "0 < width"; cases "0 < height"; simp)+
  have "int (nat height * nat width) = height * width"
    using w h by simp
  then have lt: "int k < height * width"
    using assms by linarith
  have "int k div width < height"
  proof (rule ccontr)
    assume "\<not> int k div width < height"
    then have "height \<le> int k div width" by simp
    then have "width * height \<le> width * (int k div width)"
      using w by (simp add: mult_left_mono)
    moreover have "width * (int k div width) \<le> int k"
    proof -
      have "int k = width * (int k div width) + int k mod width" by simp
      moreover have "0 \<le> int k mod width" using w by simp
      ultimately show ?thesis by linarith
    qed
    ultimately show False
      using lt by (simp add: mult.commute)
  qed
  moreover have "0 \<le> int k div width"
    using w by (simp add: pos_imp_zdiv_nonneg_iff)
  ultimately show ?thesis
    using w by (simp add: grid_def)
qed

lemma visit_seeds:
  "gs_seeds (visit height width d t ind p st) q = gs_seeds st q
   \<or> gs_seeds (visit height width d t ind p st) q = 0"
  by (auto simp: visit_def split: prod.splits)

lemma fold_visit_seeds:
  "gs_seeds (fold (visit height width d t ind) ps st) q = gs_seeds st q
   \<or> gs_seeds (fold (visit height width d t ind) ps st) q = 0"
proof (induction ps arbitrary: st)
  case Nil
  show ?case by simp
next
  case (Cons p ps)
  show ?case
    using Cons.IH[of "visit height width d t ind p st"] visit_seeds[of height width d t ind p st q]
    by auto
qed

lemma grow_seeds:
  "gs_seeds (grow height width d t st) q = gs_seeds st q \<or> gs_seeds (grow height width d t st) q = 0"
proof (induction height width d t st rule: grow.induct)
  case (1 height width d t st)
  show ?case
  proof (cases "queue st")
    case Nil
    then show ?thesis by (simp add: grow.simps)
  next
    case (Cons ind rest)
    let ?st = "expand height width d t ind (st\<lparr>queue := rest\<rparr>)"
    have g: "grow height width d t st = grow height width d t ?st"
      using Cons by (subst grow.simps) simp
    have "gs_seeds ?st q = gs_seeds st q \<or> gs_seeds ?st q = 0"
      using fold_visit_seeds[of height width d t ind "neighbourhood ind" "st\<lparr>queue := rest\<rparr>" q]
      by (simp add: expand_def)
    then show ?thesis
      using 1[OF Cons] g by auto
  qed
qed

lemma finite_nonzero_seeds: "finite (nonzero_seeds height width seeds)"
  by (rule finite_subset[OF _ finite_grid[of height width]]) (auto simp: nonzero_seeds_def)

lemma region_growing_loop_returns:
  assumes "\<forall>p \<in> grid height width. 0 \<le> seeds p"
  shows "\<exists>result. region_growing_loop height width d t sig seeds done' masks = Some result"
  using assms
proof (induction "card (nonzero_seeds height width seeds)" arbitrary: seeds done' masks rule: less_induct)
  case less
  show ?case
  proof (cases "sum_list (ravel height width seeds) = 0")
    case True
    then show ?thesis
      by (subst region_growing_loop.simps) simp
  next
    case False
    let ?xs = "ravel height width seeds"
    let ?k = "argmax ?xs"
    define root where "root = (int ?k div width, int ?k - int ?k div width * width)"
    define st0 where "st0 = \<lparr>queue = [root], gs_seeds = seeds(root := 0), gs_done = done'(root := 1),
                 gs_mask = (\<lambda>p. 0)(root := 1)\<rparr>"
    define st where "st = grow height width d t st0"
    have nonneg: "\<forall>x \<in> set ?xs. 0 \<le> x"
      using less.prems ravel_index_in_grid by (auto simp: ravel_def)
    have ne: "?xs \<noteq> []" and pos: "0 < amax ?xs"
      using amax_pos[OF nonneg False] by simp_all
    have k: "?k < nat height * nat width"
      using argmax_less[OF ne] by (simp add: ravel_def)
    have root_eq: "root = (int ?k div width, int ?k mod width)"
      by (simp add: root_def minus_div_mult_eq_mod)
    have root_grid: "root \<in> grid height width"
      unfolding root_eq using ravel_index_in_grid[OF k] .
    have "?xs ! ?k = seeds (int ?k div width, int ?k mod width)"
      using k by (simp add: ravel_def)
    then have root_pos: "0 < seeds root"
      using nth_argmax[OF ne] pos root_eq by simp
    have seeds0: "gs_seeds st0 = seeds(root := 0)"
      by (simp add: st0_def)
    have step: "gs_seeds st q = gs_seeds st0 q \<or> gs_seeds st q = 0" for q
      unfolding st_def by (rule grow_seeds)
    have sub: "nonzero_seeds height width (gs_seeds st) \<subseteq> nonzero_seeds height width seeds - {root}"
    proof
      fix q assume q: "q \<in> nonzero_seeds height width (gs_seeds st)"
      then have nz: "gs_seeds st q \<noteq> 0" and qg: "q \<in> grid height width"
        by (simp_all add: nonzero_seeds_def)
      have "gs_seeds st0 q \<noteq> 0"
        using step[of q] nz by auto
      then have "q \<noteq> root \<and> seeds q \<noteq> 0"
        unfolding seeds0 by (auto split: if_splits)
      then show "q \<in> nonzero_seeds height width seeds - {root}"
        using qg by (simp add: nonzero_seeds_def)
    qed
    have "root \<in> nonzero_seeds height width seeds"
      using root_grid root_pos by (simp add: nonzero_seeds_def)
    then have "card (nonzero_seeds height width seeds - {root}) < card (nonzero_seeds height width seeds)"
      using finite_nonzero_seeds[of height width seeds] by (meson card_Diff1_less)
    moreover have "card (nonzero_seeds height width (gs_seeds st))
        \<le> card (nonzero_seeds height width seeds - {root})"
      using sub finite_nonzero_seeds[of height width seeds] by (meson card_mono finite_Diff)
    ultimately have smaller: "card (nonzero_seeds height width (gs_seeds st))
        < card (nonzero_seeds height width seeds)"
      by simp
    have nonneg': "\<forall>p \<in> grid height width. 0 \<le> gs_seeds st p"
    proof
      fix p assume "p \<in> grid height width"
      then have "0 \<le> gs_seeds st0 p" using less.prems by (simp add: seeds0)
      then show "0 \<le> gs_seeds st p"
        using step[of p] by auto
    qed
    from less.hyps[OF smaller nonneg']
    obtain result where "region_growing_loop height width d t sig (gs_seeds st) (gs_done st)
        (if sum_list (ravel height width (gs_mask st)) > sig then masks @ [gs_mask st] else masks)
        = Some result"
      by blast
    then show ?thesis
      using False unfolding st_def st0_def root_def
      by (subst region_growing_loop.simps) (simp add: Let_def)
  qed
qed

text \<open>
  C10. For every seed mask with values in {0,1} and every depth map whose entries are all
  nonnegative, \<open>region_growing\<close> returns: the seeds stay nonnegative, so while their sum is
  not zero the greatest of them is positive; an iteration of the outer loop zeroes it, the
  inner loop ends and only zeroes further seeds, and the number of nonzero seeds decreases.
\<close>

theorem region_growing_terminates:
  assumes "\<forall>p \<in> grid height width. movement_mask p \<in> {0, 1}"
    and "\<forall>p \<in> grid height width. 0 \<le> current_depth p"
  shows "\<exists>masks. region_growing height width movement_mask current_depth depth_threshold
           significant_number_of_points = Some masks"
  unfolding region_growing_def
proof (rule region_growing_loop_returns)
  show "\<forall>p \<in> grid height width. 0 \<le> movement_mask p * current_depth p"
    using assms by auto
qed

theorem region_growing_terminates_witness:
  "\<exists>masks. region_growing 2 3 corner_mask flat_depth 0.05 100 = Some masks"
proof (rule region_growing_terminates)
  show "\<forall>p \<in> grid 2 3. corner_mask p \<in> {0, 1}"
    by (simp add: corner_mask_def)
  show "\<forall>p \<in> grid 2 3. 0 \<le> flat_depth p"
    by (simp add: flat_depth_def)
qed

end
